theory Spec2Isabelle
  imports Main "HOL-Library.Word"
begin

unbundle bit_operations_syntax

section \<open>Machine types\<close>

text \<open>
  The program declares \<^verbatim>\<open>u8\<close>, \<^verbatim>\<open>u16\<close> and \<^verbatim>\<open>u32\<close> as unsigned char, short and int.
  They are words here, so that \<open>+\<close> and \<open>-\<close> wrap as in C. The host is little endian
  (the README asks for one): a \<^verbatim>\<open>u16\<close> seen through a byte pointer is its low byte
  followed by its high byte.
\<close>

type_synonym u8 = "8 word"
type_synonym u16 = "16 word"
type_synonym u32 = "32 word"

definition u16_bytes :: "u16 \<Rightarrow> u8 list" where
  "u16_bytes x = [ucast x, ucast (drop_bit 8 x)]"

definition bytes_u16 :: "u8 list \<Rightarrow> u16" where
  "bytes_u16 bs = (ucast (bs ! 0) :: u16) OR push_bit 8 (ucast (bs ! 1) :: u16)"

fun bytes_words :: "u8 list \<Rightarrow> u16 list" where
  "bytes_words (lo # hi # bs) = bytes_u16 [lo, hi] # bytes_words bs"
| "bytes_words bs = []"

section \<open>The command packet and the USB bus\<close>

text \<open>
  \<^verbatim>\<open>enum cx_fw_cmd\<close> and \<^verbatim>\<open>enum cx_mem_access\<close>, by their numbers (the packet stores
  them in a byte), and the endpoint constants.
\<close>

abbreviation (input) FW_CMD_ERR :: u8 where "FW_CMD_ERR \<equiv> 0"
abbreviation (input) FW_GET_VER :: u8 where "FW_GET_VER \<equiv> 1"
abbreviation (input) FW_READ_MEM :: u8 where "FW_READ_MEM \<equiv> 2"
abbreviation (input) FW_WRITE_MEM :: u8 where "FW_WRITE_MEM \<equiv> 3"
abbreviation (input) FW_RMW_MEM :: u8 where "FW_RMW_MEM \<equiv> 4"
abbreviation (input) FW_CHECKSUM_MEM :: u8 where "FW_CHECKSUM_MEM \<equiv> 5"
abbreviation (input) FW_GOTO_MEM :: u8 where "FW_GOTO_MEM \<equiv> 6"

abbreviation (input) MA_BYTE :: u8 where "MA_BYTE \<equiv> 0"
abbreviation (input) MA_WORD :: u8 where "MA_WORD \<equiv> 1"
abbreviation (input) MA_DWORD :: u8 where "MA_DWORD \<equiv> 2"

abbreviation (input) CX_EP_CMD :: u8 where "CX_EP_CMD \<equiv> 0x01"
abbreviation (input) LIBUSB_ENDPOINT_IN :: u8 where "LIBUSB_ENDPOINT_IN \<equiv> 0x80"

abbreviation (input) CX861XX_FLASH_ENABLE :: u32 where "CX861XX_FLASH_ENABLE \<equiv> 0x00600000 + 4"

text \<open>
  \<^verbatim>\<open>struct cx_fw_packet\<close>, 64 bytes: four header bytes, the address and 56 bytes of
  data. Field names carry the prefix \<open>p_\<close> because HOL has one name space for record
  fields and variables.
\<close>

record cx_fw_packet =
  p_cmd :: u8
  p_byte_count :: u8
  p_access_type :: u8
  p_ack_request :: u8
  p_address :: u32
  p_data :: "u8 list"

definition sizeof_data :: nat where
  "sizeof_data = 56"

text \<open>\<^verbatim>\<open>memset(&packet, 0, sizeof(packet))\<close>\<close>

definition zero_packet :: cx_fw_packet where
  "zero_packet = \<lparr>p_cmd = 0, p_byte_count = 0, p_access_type = 0, p_ack_request = 0,
     p_address = 0, p_data = replicate sizeof_data 0\<rparr>"

text \<open>
  What happens outside the program is recorded, in order: a packet handed to the OUT
  endpoint, and the result of a transfer from the IN endpoint (libusb's return value and
  the packet buffer as the transfer left it). What the program prints is kept apart.
  Only diagnostics are recorded: the banner, the progress lines and the dots carry
  nothing that the control flow or a property below depends on, and are left out.
\<close>

datatype event = Out cx_fw_packet | In int cx_fw_packet

datatype message = Printf string | Fprintf_stderr string "int list"

text \<open>
  The state of a run: the global \<^verbatim>\<open>flash_base\<close>, the bus history, the console and
  the bytes written to the image file in read mode.
\<close>

record world =
  flash_base :: u32
  bus :: "event list"
  tty :: "message list"
  outfile :: "u8 list"

text \<open>
  The device handle \<^verbatim>\<open>dev\<close> stands for everything the program cannot control: what
  libusb returns for the next OUT transfer, what the next IN transfer returns and
  delivers, and the value found in a local variable that was never written. Each is a
  function of the bus history, so that a device may answer according to what it was
  sent. Properties are proved for every such device.
\<close>

record device =
  usb_out :: "event list \<Rightarrow> cx_fw_packet \<Rightarrow> int"
  usb_in :: "event list \<Rightarrow> int \<times> cx_fw_packet"
  indeterminate :: "event list \<Rightarrow> u16"

text \<open>
  A call returns a value, or the process leaves through \<^verbatim>\<open>exit\<close>, or the call runs
  into undefined behaviour (a copy past the end of an object, a call through a null
  pointer), or the loop bound of the model is used up (the C loop would still be running).
\<close>

datatype 'a outcome = Returns 'a | Exits int | Fault | OutOfFuel

type_synonym 'a io = "world \<Rightarrow> 'a outcome \<times> world"

definition ret :: "'a \<Rightarrow> 'a io" where
  "ret x w = (Returns x, w)"

definition exit :: "int \<Rightarrow> 'a io" where
  "exit code w = (Exits code, w)"

definition fault :: "'a io" where
  "fault w = (Fault, w)"

definition seq :: "'a io \<Rightarrow> ('a \<Rightarrow> 'b io) \<Rightarrow> 'b io" where
  "seq m f w =
     (case m w of
        (Returns x, w') \<Rightarrow> f x w'
      | (Exits code, w') \<Rightarrow> (Exits code, w')
      | (Fault, w') \<Rightarrow> (Fault, w')
      | (OutOfFuel, w') \<Rightarrow> (OutOfFuel, w'))"

text \<open>The line feed that ends a message.\<close>

abbreviation (input) LF :: string where "LF \<equiv> [CHR 0x0A]"

definition printf :: "string \<Rightarrow> unit io" where
  "printf s w = (Returns (), w\<lparr>tty := tty w @ [Printf s]\<rparr>)"

definition fprintf_stderr :: "string \<Rightarrow> int list \<Rightarrow> unit io" where
  "fprintf_stderr s args w = (Returns (), w\<lparr>tty := tty w @ [Fprintf_stderr s args]\<rparr>)"

text \<open>
  \<^verbatim>\<open>libusb_bulk_transfer(dev, endpoint, &packet, sizeof(packet), &transferred, CMD_TIMEOUT)\<close>:
  the direction is bit 7 of the endpoint. The number of bytes transferred is never read
  by the program.
\<close>

definition libusb_bulk_transfer :: "device \<Rightarrow> u8 \<Rightarrow> cx_fw_packet \<Rightarrow> (int \<times> cx_fw_packet) io" where
  "libusb_bulk_transfer dev endpoint packet w =
     (if endpoint AND LIBUSB_ENDPOINT_IN = 0
      then (Returns (usb_out dev (bus w) packet, packet), w\<lparr>bus := bus w @ [Out packet]\<rparr>)
      else (case usb_in dev (bus w) of
              (r, packet') \<Rightarrow> (Returns (r, packet'), w\<lparr>bus := bus w @ [In r packet']\<rparr>)))"

text \<open>
  \<^verbatim>\<open>memcpy(dst + off, src, n)\<close> on an object \<open>dst\<close>: copying from beyond the source or to
  beyond the destination is undefined in C.
\<close>

definition memcpy :: "u8 list \<Rightarrow> nat \<Rightarrow> u8 list \<Rightarrow> nat \<Rightarrow> u8 list io" where
  "memcpy dst off src n =
     (if n \<le> length src \<and> off + n \<le> length dst
      then ret (take off dst @ take n src @ drop (off + n) dst)
      else fault)"

section \<open>Memory access\<close>

text \<open>The byte count of the next packet: 56, or what is left.\<close>

definition chunk :: "u32 \<Rightarrow> u8" where
  "chunk cnt = (if cnt > of_nat sizeof_data then of_nat sizeof_data else ucast cnt)"

lemma unat_chunk: "unat (chunk cnt) = min sizeof_data (unat cnt)"
proof (cases "cnt > of_nat sizeof_data")
  case True
  then have "56 < unat cnt"
    by (simp add: sizeof_data_def word_less_nat_alt)
  with True show ?thesis
    by (simp add: chunk_def sizeof_data_def)
next
  case False
  then have le: "unat cnt \<le> 56"
    by (simp add: sizeof_data_def word_less_nat_alt)
  then have "unat (ucast cnt :: u8) = unat cnt"
    by (simp add: unsigned_ucast_eq take_bit_nat_eq_self)
  with False le show ?thesis
    by (simp add: chunk_def sizeof_data_def)
qed

lemma ucast_chunk: "unat (ucast (chunk cnt) :: u32) = min sizeof_data (unat cnt)"
  by (simp add: unsigned_ucast_eq unat_chunk sizeof_data_def take_bit_nat_eq_self)

lemma chunk_le: "(ucast (chunk cnt) :: u32) \<le> cnt"
  by (simp add: word_le_nat_alt ucast_chunk)

lemma unat_minus_chunk: "unat (cnt - ucast (chunk cnt)) = unat cnt - min sizeof_data (unat cnt)"
  by (simp add: unat_sub chunk_le ucast_chunk)

text \<open>
  \<^verbatim>\<open>cx_write_mem(dev, addr, count, buf, access_type)\<close>. \<open>buf\<close> is the object the pointer
  points into, from the pointer on. The loop ends because every packet takes at least
  one byte off the count.
\<close>

function cx_write_mem :: "device \<Rightarrow> u32 \<Rightarrow> u32 \<Rightarrow> u8 list \<Rightarrow> u8 \<Rightarrow> int io" where
  "cx_write_mem dev addr cnt buf access_type w =
     (if cnt > 0 then
        (let packet = zero_packet\<lparr>p_cmd := FW_WRITE_MEM, p_byte_count := chunk cnt,
               p_access_type := access_type, p_ack_request := 0, p_address := addr\<rparr>
         in seq (memcpy (p_data packet) 0 buf (unat (p_byte_count packet)))
              (\<lambda>dat w1. seq (libusb_bulk_transfer dev CX_EP_CMD (packet\<lparr>p_data := dat\<rparr>))
                 (\<lambda>(r, _) w2.
                    if r < 0
                    then seq (fprintf_stderr (''Error sending USB request: %d'' @ LF) [r]) (\<lambda>_. ret r) w2
                    else cx_write_mem dev (addr + ucast (chunk cnt)) (cnt - ucast (chunk cnt))
                           (drop (unat (chunk cnt)) buf) access_type w2) w1) w)
      else ret 0 w)"
  by pat_completeness auto
termination
proof (relation "measure (\<lambda>(dev, addr, cnt, buf, access_type, w). unat cnt)")
  show "wf (measure (\<lambda>(dev, addr, cnt, buf, access_type, w). unat cnt))"
    by simp
next
  fix dev :: device and addr cnt :: u32 and buf :: "u8 list" and access_type :: u8
    and w x xa :: world and z :: "int \<times> cx_fw_packet" and xb xc y ya
  assume "0 < cnt"
  then have "0 < unat cnt"
    by (simp add: word_less_nat_alt)
  then show "((dev, addr + ucast (chunk cnt), cnt - ucast (chunk cnt), drop (unat (chunk cnt)) buf,
        access_type, xa), dev, addr, cnt, buf, access_type, w)
      \<in> measure (\<lambda>(dev, addr, cnt, buf, access_type, w). unat cnt)"
    by (simp add: unat_minus_chunk sizeof_data_def)
qed

declare cx_write_mem.simps [simp del]

text \<open>
  The inner loop of \<^verbatim>\<open>cx_read_mem\<close>: replies are collected until the byte counts they
  announce add up to the byte count asked for. The counts are the device's, and the
  subtractions wrap. The loop returns the destination object with either the error code
  the function returns at once, or the count, the address and the offset of \<^verbatim>\<open>buf\<close> the
  outer loop goes on with. \<open>n\<close> bounds the number of iterations.
\<close>

fun cx_read_replies :: "nat \<Rightarrow> device \<Rightarrow> cx_fw_packet \<Rightarrow> u8 \<Rightarrow> u32 \<Rightarrow> u32 \<Rightarrow> u8 list \<Rightarrow> nat
    \<Rightarrow> (u8 list \<times> (int + u32 \<times> u32 \<times> nat)) io" where
  "cx_read_replies 0 dev packet packet_byte_count cnt addr dst off w =
     (if packet_byte_count > 0 then (OutOfFuel, w) else ret (dst, Inr (cnt, addr, off)) w)"
| "cx_read_replies (Suc n) dev packet packet_byte_count cnt addr dst off w =
     (if packet_byte_count > 0 then
        seq (libusb_bulk_transfer dev (CX_EP_CMD OR LIBUSB_ENDPOINT_IN) packet)
          (\<lambda>(r, packet') w1.
             if r < 0
             then seq (fprintf_stderr (''Error reading data: %d'' @ LF) [r]) (\<lambda>_. ret (dst, Inl r)) w1
             else seq (memcpy dst off (take sizeof_data (p_data packet')) (unat (p_byte_count packet')))
                    (\<lambda>dst' w2. cx_read_replies n dev packet'
                       (packet_byte_count - p_byte_count packet')
                       (cnt - ucast (p_byte_count packet'))
                       (addr + ucast (p_byte_count packet'))
                       dst' (off + unat (p_byte_count packet')) w2) w1) w
      else ret (dst, Inr (cnt, addr, off)) w)"

text \<open>
  The outer loop of \<^verbatim>\<open>cx_read_mem\<close>, bounded by \<open>n\<close>; \<open>fuel\<close> bounds each inner loop.
\<close>

fun cx_read_mem_loop :: "nat \<Rightarrow> nat \<Rightarrow> device \<Rightarrow> u32 \<Rightarrow> u32 \<Rightarrow> u8 list \<Rightarrow> nat \<Rightarrow> u8
    \<Rightarrow> (int \<times> u8 list) io" where
  "cx_read_mem_loop 0 fuel dev addr cnt dst off access_type w =
     (if cnt > 0 then (OutOfFuel, w) else ret (0, dst) w)"
| "cx_read_mem_loop (Suc n) fuel dev addr cnt dst off access_type w =
     (if cnt > 0 then
        (let packet = zero_packet\<lparr>p_cmd := FW_READ_MEM, p_byte_count := chunk cnt,
               p_access_type := access_type, p_ack_request := 1, p_address := addr\<rparr>
         in seq (libusb_bulk_transfer dev CX_EP_CMD packet)
              (\<lambda>(r, _) w1.
                 if r < 0
                 then seq (fprintf_stderr (''Error sending USB request: %d'' @ LF) [r]) (\<lambda>_. ret (r, dst)) w1
                 else seq (cx_read_replies fuel dev zero_packet (p_byte_count packet) cnt addr dst off)
                        (\<lambda>(dst', x) w2.
                           case x of
                             Inl r' \<Rightarrow> ret (r', dst') w2
                           | Inr (cnt', addr', off') \<Rightarrow>
                               cx_read_mem_loop n fuel dev addr' cnt' dst' off' access_type w2) w1) w)
      else ret (0, dst) w)"

text \<open>
  \<^verbatim>\<open>cx_read_mem(dev, addr, count, buf, access_type)\<close>, with \<open>dst\<close> the object \<^verbatim>\<open>buf\<close>
  points to; the object is returned as the reads left it.
\<close>

definition cx_read_mem :: "nat \<Rightarrow> device \<Rightarrow> u32 \<Rightarrow> u32 \<Rightarrow> u8 list \<Rightarrow> u8 \<Rightarrow> (int \<times> u8 list) io" where
  "cx_read_mem fuel dev addr cnt dst access_type =
     cx_read_mem_loop fuel fuel dev addr cnt dst 0 access_type"

section \<open>Flash access\<close>

abbreviation (input) FLASH_CMD_ID :: "'a::len word" where "FLASH_CMD_ID \<equiv> 0x90"
abbreviation (input) FLASH_CMD_CFI :: "'a::len word" where "FLASH_CMD_CFI \<equiv> 0x98"

text \<open>
  \<^verbatim>\<open>cx_flash_read\<close> reads two bytes into the local \<^verbatim>\<open>data\<close>, which has no initial value,
  and returns it whatever \<^verbatim>\<open>cx_read_mem\<close> returned. \<^verbatim>\<open>cx_flash_write\<close> returns nothing.
\<close>

definition cx_flash_read :: "nat \<Rightarrow> device \<Rightarrow> u32 \<Rightarrow> u16 io" where
  "cx_flash_read fuel dev addr w =
     seq (cx_read_mem fuel dev (flash_base w + addr) 2 (u16_bytes (indeterminate dev (bus w))) MA_WORD)
       (\<lambda>(r, dst). ret (bytes_u16 dst)) w"

definition cx_flash_write :: "device \<Rightarrow> u32 \<Rightarrow> u16 \<Rightarrow> unit io" where
  "cx_flash_write dev addr dat w =
     seq (cx_write_mem dev (flash_base w + addr) 2 (u16_bytes dat) MA_WORD) (\<lambda>r. ret ()) w"

definition cx_flash_cmd :: "device \<Rightarrow> u8 \<Rightarrow> unit io" where
  "cx_flash_cmd dev c =
     seq (cx_flash_write dev 0xaaa 0xaa) (\<lambda>_.
     seq (cx_flash_write dev 0x554 0x55) (\<lambda>_.
     cx_flash_write dev 0xaaa (ucast c)))"

section \<open>Intel flash\<close>

abbreviation (input) INTEL_CMD_READ :: "'a::len word" where "INTEL_CMD_READ \<equiv> 0xff"
abbreviation (input) INTEL_CMD_READSTATUS :: "'a::len word" where "INTEL_CMD_READSTATUS \<equiv> 0x70"
abbreviation (input) INTEL_CMD_CLEARSTATUS :: "'a::len word" where "INTEL_CMD_CLEARSTATUS \<equiv> 0x50"
abbreviation (input) INTEL_CMD_PROGRAM :: "'a::len word" where "INTEL_CMD_PROGRAM \<equiv> 0x40"
abbreviation (input) INTEL_CMD_ERASE :: "'a::len word" where "INTEL_CMD_ERASE \<equiv> 0x20"
abbreviation (input) INTEL_CMD_ERASECONFIRM :: "'a::len word" where "INTEL_CMD_ERASECONFIRM \<equiv> 0xd0"
abbreviation (input) INTEL_CMD_LOCKMODE :: "'a::len word" where "INTEL_CMD_LOCKMODE \<equiv> 0x60"
abbreviation (input) INTEL_CMD_LOCK :: "'a::len word" where "INTEL_CMD_LOCK \<equiv> 0x01"
abbreviation (input) INTEL_CMD_UNLOCK :: "'a::len word" where "INTEL_CMD_UNLOCK \<equiv> 0xd0"

text \<open>The status bits, \<^verbatim>\<open>(1 << 7)\<close> down to \<^verbatim>\<open>(1 << 1)\<close>, and the error mask.\<close>

abbreviation (input) INTEL_ST_READY :: u16 where "INTEL_ST_READY \<equiv> 0x80"
abbreviation (input) INTEL_ST_ERASESUSPEND :: u16 where "INTEL_ST_ERASESUSPEND \<equiv> 0x40"
abbreviation (input) INTEL_ST_ERASEERROR :: u16 where "INTEL_ST_ERASEERROR \<equiv> 0x20"
abbreviation (input) INTEL_ST_PROGRAMERROR :: u16 where "INTEL_ST_PROGRAMERROR \<equiv> 0x10"
abbreviation (input) INTEL_ST_VPPERROR :: u16 where "INTEL_ST_VPPERROR \<equiv> 0x08"
abbreviation (input) INTEL_ST_PROGRAMSUSPEND :: u16 where "INTEL_ST_PROGRAMSUSPEND \<equiv> 0x04"
abbreviation (input) INTEL_ST_LOCKED :: u16 where "INTEL_ST_LOCKED \<equiv> 0x02"

abbreviation (input) INTEL_ST_ERROR_MASK :: u16 where "INTEL_ST_ERROR_MASK \<equiv> 0x5a"

definition print_if :: "bool \<Rightarrow> string \<Rightarrow> unit io" where
  "print_if b s = (if b then printf s else ret ())"

definition intel_decode_status :: "u16 \<Rightarrow> unit io" where
  "intel_decode_status status =
     seq (printf ''Status decode: '') (\<lambda>_.
     seq (print_if (status AND INTEL_ST_READY \<noteq> 0) ''READY '') (\<lambda>_.
     seq (print_if (status AND INTEL_ST_ERASESUSPEND \<noteq> 0) ''ERASE_SUSPEND '') (\<lambda>_.
     seq (print_if (status AND INTEL_ST_ERASEERROR \<noteq> 0) ''ERASE_ERROR '') (\<lambda>_.
     seq (print_if (status AND INTEL_ST_PROGRAMERROR \<noteq> 0) ''PROGRAM_ERROR '') (\<lambda>_.
     seq (print_if (status AND INTEL_ST_VPPERROR \<noteq> 0) ''VPP_ERROR '') (\<lambda>_.
     seq (print_if (status AND INTEL_ST_PROGRAMSUSPEND \<noteq> 0) ''PROGRAM_SUSPEND '') (\<lambda>_.
     seq (print_if (status AND INTEL_ST_LOCKED \<noteq> 0) ''LOCKED '') (\<lambda>_.
     printf LF))))))))"

text \<open>
  \<^verbatim>\<open>do { status = cx_flash_read(dev, 0); } while (!(status & INTEL_ST_READY));\<close>
  The loop stands in \<^verbatim>\<open>intel_erase_block\<close> and in \<^verbatim>\<open>intel_program_block\<close>; the two
  copies differ in the progress dots only. \<open>n\<close> bounds the number of reads.
\<close>

fun intel_wait_ready :: "nat \<Rightarrow> nat \<Rightarrow> device \<Rightarrow> u16 io" where
  "intel_wait_ready 0 fuel dev w = (OutOfFuel, w)"
| "intel_wait_ready (Suc n) fuel dev w =
     seq (cx_flash_read fuel dev 0)
       (\<lambda>status w1.
          if status AND INTEL_ST_READY = 0 then intel_wait_ready n fuel dev w1
          else ret status w1) w"

definition intel_erase_block :: "nat \<Rightarrow> device \<Rightarrow> u32 \<Rightarrow> bool io" where
  "intel_erase_block fuel dev addr =
     seq (cx_flash_write dev 0 INTEL_CMD_CLEARSTATUS) (\<lambda>_.
     seq (cx_flash_write dev 0 INTEL_CMD_READSTATUS) (\<lambda>_.
     seq (cx_flash_write dev addr INTEL_CMD_ERASE) (\<lambda>_.
     seq (cx_flash_write dev addr INTEL_CMD_ERASECONFIRM) (\<lambda>_.
     seq (intel_wait_ready fuel fuel dev) (\<lambda>status.
     seq (cx_flash_write dev 0 INTEL_CMD_READ) (\<lambda>_.
     if status AND INTEL_ST_ERROR_MASK \<noteq> 0
     then seq (printf (''Error!'' @ LF)) (\<lambda>_. seq (intel_decode_status status) (\<lambda>_. ret False))
     else ret True))))))"

text \<open>\<^verbatim>\<open>u16 buf[2]\<close> holds the command and the word; one write of four bytes at \<open>addr - 2\<close>.\<close>

definition intel_optimized_program_word :: "device \<Rightarrow> u32 \<Rightarrow> u16 \<Rightarrow> unit io" where
  "intel_optimized_program_word dev addr dat w =
     seq (cx_write_mem dev (flash_base w + addr - 2) 4
            (u16_bytes INTEL_CMD_PROGRAM @ u16_bytes dat) MA_WORD) (\<lambda>r. ret ()) w"

text \<open>
  The \<^verbatim>\<open>for\<close> loop of \<^verbatim>\<open>intel_program_block\<close> from index \<open>i\<close> on. \<open>dat\<close> is the object
  \<^verbatim>\<open>data\<close> points to, as 16-bit words; reading beyond it is undefined. The index cannot
  wrap: it stays below \<^verbatim>\<open>size / 2\<close>. The result is \<open>False\<close> when the function has
  returned \<^verbatim>\<open>false\<close> from inside the loop, \<open>True\<close> when the loop has run to its end.
\<close>

function intel_program_loop :: "nat \<Rightarrow> device \<Rightarrow> u32 \<Rightarrow> u16 list \<Rightarrow> u32 \<Rightarrow> bool \<Rightarrow> nat \<Rightarrow> bool io" where
  "intel_program_loop fuel dev addr dat sz slow i w =
     (if i < unat (sz div 2) then
        (if length dat \<le> i then fault w
         else if dat ! i = 0xffff then intel_program_loop fuel dev addr dat sz slow (Suc i) w
         else
           seq (if i = 0
                then seq (cx_flash_write dev addr INTEL_CMD_PROGRAM) (\<lambda>_.
                       cx_flash_write dev (addr + of_nat i * 2) (dat ! i))
                else intel_optimized_program_word dev (addr + of_nat i * 2) (dat ! i))
             (\<lambda>_ w1.
                if slow then
                  seq (intel_wait_ready fuel fuel dev)
                    (\<lambda>status w2.
                       if status AND INTEL_ST_ERROR_MASK \<noteq> 0
                       then seq (printf (''Error!'' @ LF)) (\<lambda>_.
                            seq (intel_decode_status status) (\<lambda>_.
                            seq (cx_flash_write dev 0 INTEL_CMD_READ) (\<lambda>_. ret False))) w2
                       else intel_program_loop fuel dev addr dat sz slow (Suc i) w2) w1
                else intel_program_loop fuel dev addr dat sz slow (Suc i) w1) w)
      else ret True w)"
  by pat_completeness auto
termination
  by (relation "measure (\<lambda>(fuel, dev, addr, dat, sz, slow, i, w). unat (sz div 2) - i)") auto

declare intel_program_loop.simps [simp del]

definition intel_program_block :: "nat \<Rightarrow> device \<Rightarrow> u32 \<Rightarrow> u16 list \<Rightarrow> u32 \<Rightarrow> bool \<Rightarrow> bool io" where
  "intel_program_block fuel dev addr dat sz slow =
     seq (cx_flash_write dev 0 INTEL_CMD_CLEARSTATUS) (\<lambda>_.
     seq (cx_flash_write dev 0 INTEL_CMD_READSTATUS) (\<lambda>_.
     seq (intel_program_loop fuel dev addr dat sz slow 0) (\<lambda>finished.
     if finished then seq (cx_flash_write dev 0 INTEL_CMD_READ) (\<lambda>_. ret True)
     else ret False)))"

definition intel_set_block_lock :: "device \<Rightarrow> u32 \<Rightarrow> bool \<Rightarrow> unit io" where
  "intel_set_block_lock dev addr lock =
     seq (cx_flash_write dev addr INTEL_CMD_LOCKMODE) (\<lambda>_.
     cx_flash_write dev addr (if lock then INTEL_CMD_LOCK else INTEL_CMD_UNLOCK))"

section \<open>AMD flash\<close>

abbreviation (input) AMD_CMD_RESET :: "'a::len word" where "AMD_CMD_RESET \<equiv> 0xf0"
abbreviation (input) AMD_CMD_PROGRAM :: "'a::len word" where "AMD_CMD_PROGRAM \<equiv> 0xa0"
abbreviation (input) AMD_CMD_ERASE_PREPARE :: "'a::len word" where "AMD_CMD_ERASE_PREPARE \<equiv> 0x80"
abbreviation (input) AMD_CMD_ERASE_SECTOR :: "'a::len word" where "AMD_CMD_ERASE_SECTOR \<equiv> 0x30"
abbreviation (input) AMD_CMD_UNLOCK_BYPASS :: "'a::len word" where "AMD_CMD_UNLOCK_BYPASS \<equiv> 0x20"
abbreviation (input) AMD_CMD_BYPASS_RESET1 :: "'a::len word" where "AMD_CMD_BYPASS_RESET1 \<equiv> 0x90"
abbreviation (input) AMD_CMD_BYPASS_RESET2 :: "'a::len word" where "AMD_CMD_BYPASS_RESET2 \<equiv> 0x00"

abbreviation (input) AMD_ST_DATAPOLL :: u16 where "AMD_ST_DATAPOLL \<equiv> 0x80"
abbreviation (input) AMD_ST_TIMEOUT :: u16 where "AMD_ST_TIMEOUT \<equiv> 0x20"

text \<open>
  The data polling loop of \<^verbatim>\<open>amd_erase_block\<close>. The result is \<open>False\<close> when the function
  has returned \<^verbatim>\<open>false\<close> from inside the loop, \<open>True\<close> when the loop has ended.
\<close>

fun amd_erase_poll :: "nat \<Rightarrow> nat \<Rightarrow> device \<Rightarrow> u32 \<Rightarrow> bool io" where
  "amd_erase_poll 0 fuel dev addr w = (OutOfFuel, w)"
| "amd_erase_poll (Suc n) fuel dev addr w =
     seq (cx_flash_read fuel dev addr)
       (\<lambda>status w1.
          if status AND AMD_ST_DATAPOLL = 0 \<and> status AND AMD_ST_TIMEOUT \<noteq> 0
          then seq (printf (''Error: TIMEOUT!'' @ LF)) (\<lambda>_.
               seq (cx_flash_write dev 0 AMD_CMD_RESET) (\<lambda>_. ret False)) w1
          else if status AND AMD_ST_DATAPOLL = 0 then amd_erase_poll n fuel dev addr w1
          else ret True w1) w"

definition amd_erase_block :: "nat \<Rightarrow> device \<Rightarrow> u32 \<Rightarrow> bool io" where
  "amd_erase_block fuel dev addr =
     seq (cx_flash_cmd dev AMD_CMD_ERASE_PREPARE) (\<lambda>_.
     seq (cx_flash_write dev 0xaaa 0xaa) (\<lambda>_.
     seq (cx_flash_write dev 0x554 0x55) (\<lambda>_.
     seq (cx_flash_write dev addr AMD_CMD_ERASE_SECTOR) (\<lambda>_.
     amd_erase_poll fuel fuel dev addr))))"

definition amd_optimized_program_word :: "device \<Rightarrow> u32 \<Rightarrow> u16 \<Rightarrow> unit io" where
  "amd_optimized_program_word dev addr dat w =
     seq (cx_write_mem dev (flash_base w + addr - 2) 4
            (u16_bytes AMD_CMD_PROGRAM @ u16_bytes dat) MA_WORD) (\<lambda>r. ret ()) w"

text \<open>
  The data polling loop of \<^verbatim>\<open>amd_program_block\<close> in slow mode: the word is read back
  until it is the word written. The result is as for \<open>amd_erase_poll\<close>.
\<close>

fun amd_program_poll :: "nat \<Rightarrow> nat \<Rightarrow> device \<Rightarrow> u32 \<Rightarrow> u16 \<Rightarrow> bool io" where
  "amd_program_poll 0 fuel dev addr dat w = (OutOfFuel, w)"
| "amd_program_poll (Suc n) fuel dev addr dat w =
     seq (cx_flash_read fuel dev addr)
       (\<lambda>status w1.
          if status \<noteq> dat \<and> status AND AMD_ST_TIMEOUT \<noteq> 0
          then seq (printf (''Error: TIMEOUT!'' @ LF)) (\<lambda>_.
               seq (cx_flash_write dev 0 AMD_CMD_BYPASS_RESET1) (\<lambda>_.
               seq (cx_flash_write dev 0 AMD_CMD_BYPASS_RESET2) (\<lambda>_.
               seq (cx_flash_write dev 0 AMD_CMD_RESET) (\<lambda>_. ret False)))) w1
          else if status \<noteq> dat then amd_program_poll n fuel dev addr dat w1
          else ret True w1) w"

text \<open>The \<^verbatim>\<open>for\<close> loop of \<^verbatim>\<open>amd_program_block\<close>, as \<open>intel_program_loop\<close>.\<close>

function amd_program_loop :: "nat \<Rightarrow> device \<Rightarrow> u32 \<Rightarrow> u16 list \<Rightarrow> u32 \<Rightarrow> bool \<Rightarrow> nat \<Rightarrow> bool io" where
  "amd_program_loop fuel dev addr dat sz slow i w =
     (if i < unat (sz div 2) then
        (if length dat \<le> i then fault w
         else if dat ! i = 0xffff then amd_program_loop fuel dev addr dat sz slow (Suc i) w
         else
           seq (if i = 0
                then seq (cx_flash_write dev addr AMD_CMD_PROGRAM) (\<lambda>_.
                       cx_flash_write dev (addr + of_nat i * 2) (dat ! i))
                else amd_optimized_program_word dev (addr + of_nat i * 2) (dat ! i))
             (\<lambda>_ w1.
                if slow then
                  seq (amd_program_poll fuel fuel dev (addr + of_nat i * 2) (dat ! i))
                    (\<lambda>settled w2.
                       if settled then amd_program_loop fuel dev addr dat sz slow (Suc i) w2
                       else ret False w2) w1
                else amd_program_loop fuel dev addr dat sz slow (Suc i) w1) w)
      else ret True w)"
  by pat_completeness auto
termination
  by (relation "measure (\<lambda>(fuel, dev, addr, dat, sz, slow, i, w). unat (sz div 2) - i)") auto

declare amd_program_loop.simps [simp del]

definition amd_program_block :: "nat \<Rightarrow> device \<Rightarrow> u32 \<Rightarrow> u16 list \<Rightarrow> u32 \<Rightarrow> bool \<Rightarrow> bool io" where
  "amd_program_block fuel dev addr dat sz slow =
     seq (cx_flash_cmd dev AMD_CMD_UNLOCK_BYPASS) (\<lambda>_.
     seq (amd_program_loop fuel dev addr dat sz slow 0) (\<lambda>finished.
     if finished
     then seq (cx_flash_write dev 0 AMD_CMD_BYPASS_RESET1) (\<lambda>_.
          seq (cx_flash_write dev 0 AMD_CMD_BYPASS_RESET2) (\<lambda>_. ret True))
     else ret False))"

section \<open>Flash parameters\<close>

text \<open>
  \<^verbatim>\<open>struct block_desc\<close> and \<^verbatim>\<open>struct flash_chip\<close>. The three function pointers may be
  null, which is \<open>None\<close>. An initializer that names some members leaves the others
  zero: the block array has 16 entries, the unnamed ones all zero.
\<close>

record block_desc =
  b_count :: u32
  b_size :: u32

record flash_chip =
  c_mfg :: u16
  c_dev :: u16
  c_name :: string
  c_size :: u32
  c_blocks :: "block_desc list"
  set_block_lock :: "(device \<Rightarrow> u32 \<Rightarrow> bool \<Rightarrow> unit io) option"
  erase_block :: "(nat \<Rightarrow> device \<Rightarrow> u32 \<Rightarrow> bool io) option"
  program_block :: "(nat \<Rightarrow> device \<Rightarrow> u32 \<Rightarrow> u16 list \<Rightarrow> u32 \<Rightarrow> bool \<Rightarrow> bool io) option"

definition block_array :: "block_desc list \<Rightarrow> block_desc list" where
  "block_array bs = bs @ replicate (16 - length bs) \<lparr>b_count = 0, b_size = 0\<rparr>"

definition supported_chips :: "flash_chip list" where
  "supported_chips =
     [\<lparr>c_mfg = 0x0089, c_dev = 0x88c5, c_name = ''Intel 28F320C3B'', c_size = 4 * 1024 * 1024,
        c_blocks = block_array
          [\<lparr>b_count = 8, b_size = 8192\<rparr>,
           \<lparr>b_count = 63, b_size = 65536\<rparr>,
           \<lparr>b_count = 0, b_size = 0\<rparr>],
        set_block_lock = Some intel_set_block_lock,
        erase_block = Some intel_erase_block,
        program_block = Some intel_program_block\<rparr>,
      \<lparr>c_mfg = 0x00c2, c_dev = 0x2249, c_name = ''MXIC MX29LV160B'', c_size = 2 * 1024 * 1024,
        c_blocks = block_array
          [\<lparr>b_count = 1, b_size = 16384\<rparr>,
           \<lparr>b_count = 2, b_size = 8192\<rparr>,
           \<lparr>b_count = 1, b_size = 32768\<rparr>,
           \<lparr>b_count = 31, b_size = 65536\<rparr>,
           \<lparr>b_count = 0, b_size = 0\<rparr>],
        set_block_lock = None,
        erase_block = Some amd_erase_block,
        program_block = Some amd_program_block\<rparr>,
      \<lparr>c_mfg = 0, c_dev = 0, c_name = [], c_size = 0, c_blocks = block_array [],
        set_block_lock = None, erase_block = None, program_block = None\<rparr>]"

text \<open>
  The search loop of \<^verbatim>\<open>flash_identify\<close> over the array from an entry on: it stops at
  the entry whose \<^verbatim>\<open>mfg\<close> is 0. Reading past the array is undefined.
\<close>

fun find_chip :: "flash_chip list \<Rightarrow> u16 \<Rightarrow> u16 \<Rightarrow> flash_chip option io" where
  "find_chip [] flash_mfg flash_dev = fault"
| "find_chip (c # cs) flash_mfg flash_dev =
     (if c_mfg c \<noteq> 0 then
        (if c_mfg c = flash_mfg \<and> c_dev c = flash_dev then ret (Some c)
         else find_chip cs flash_mfg flash_dev)
      else ret None)"

definition flash_identify :: "nat \<Rightarrow> device \<Rightarrow> flash_chip option io" where
  "flash_identify fuel dev =
     seq (cx_flash_cmd dev FLASH_CMD_ID) (\<lambda>_.
     seq (cx_flash_read fuel dev 0) (\<lambda>flash_mfg.
     seq (cx_flash_read fuel dev 2) (\<lambda>flash_dev.
     seq (cx_flash_write dev 0 INTEL_CMD_READ) (\<lambda>_.
     seq (cx_flash_write dev 0 AMD_CMD_RESET) (\<lambda>_.
     find_chip supported_chips flash_mfg flash_dev)))))"

section \<open>The engine\<close>

text \<open>
  The body of the block loop of \<^verbatim>\<open>main\<close>, for the block at \<open>addr\<close> of \<open>sz\<close> bytes.
  \<^verbatim>\<open>set_block_lock\<close> is called if it is not null; \<^verbatim>\<open>erase_block\<close> and
  \<^verbatim>\<open>program_block\<close> are called through their pointers, and what they return is not
  looked at. \<^verbatim>\<open>(void *) buf + addr\<close> is the image from byte \<open>addr\<close> on.
\<close>

definition write_block :: "nat \<Rightarrow> device \<Rightarrow> flash_chip \<Rightarrow> u8 list \<Rightarrow> bool \<Rightarrow> u32 \<Rightarrow> u32 \<Rightarrow> unit io" where
  "write_block fuel dev flash buf slow addr sz =
     seq (case set_block_lock flash of None \<Rightarrow> ret () | Some f \<Rightarrow> f dev addr False) (\<lambda>_.
     seq (case erase_block flash of None \<Rightarrow> fault | Some f \<Rightarrow> f fuel dev addr) (\<lambda>_.
     seq (case program_block flash of None \<Rightarrow> fault
          | Some f \<Rightarrow> f fuel dev addr (bytes_words (drop (unat addr) buf)) sz slow) (\<lambda>_.
     (case set_block_lock flash of None \<Rightarrow> ret () | Some f \<Rightarrow> f dev addr True))))"

text \<open>
  The inner loop, over the \<^verbatim>\<open>count\<close> blocks of one descriptor, from block \<open>j\<close> on; it
  returns the address it has reached. \<open>j\<close> stays below \<^verbatim>\<open>count\<close> and cannot wrap.
\<close>

function write_region :: "nat \<Rightarrow> device \<Rightarrow> flash_chip \<Rightarrow> u8 list \<Rightarrow> bool \<Rightarrow> block_desc \<Rightarrow> nat \<Rightarrow> u32
    \<Rightarrow> u32 io" where
  "write_region fuel dev flash buf slow b j addr w =
     (if j < unat (b_count b) then
        seq (write_block fuel dev flash buf slow addr (b_size b))
          (\<lambda>_ w1. write_region fuel dev flash buf slow b (Suc j) (addr + b_size b) w1) w
      else ret addr w)"
  by pat_completeness auto
termination
  by (relation "measure (\<lambda>(fuel, dev, flash, buf, slow, b, j, addr, w). unat (b_count b) - j)") auto

declare write_region.simps [simp del]

text \<open>
  The outer loop, over the descriptors from one entry of the array on, up to the entry
  whose \<^verbatim>\<open>count\<close> is 0. Reading past the array is undefined.
\<close>

fun write_blocks :: "nat \<Rightarrow> device \<Rightarrow> flash_chip \<Rightarrow> u8 list \<Rightarrow> bool \<Rightarrow> block_desc list \<Rightarrow> u32
    \<Rightarrow> unit io" where
  "write_blocks fuel dev flash buf slow [] addr = fault"
| "write_blocks fuel dev flash buf slow (b # bs) addr =
     (if b_count b > 0 then
        seq (write_region fuel dev flash buf slow b 0 addr) (\<lambda>addr'.
          write_blocks fuel dev flash buf slow bs addr')
      else ret ())"

text \<open>
  What \<^verbatim>\<open>main\<close> asks of the host: \<^verbatim>\<open>malloc\<close> (null, or an object whose contents are
  not initialised), the contents of the file opened for reading (none when \<^verbatim>\<open>fopen\<close>
  fails), whether the file opens for writing, and how many bytes \<^verbatim>\<open>fwrite\<close> writes.
\<close>

record host =
  h_malloc :: "nat \<Rightarrow> u8 list option"
  h_fopen_r :: "string \<Rightarrow> u8 list option"
  h_fopen_w :: "string \<Rightarrow> bool"
  h_fwrite :: "u8 list \<Rightarrow> nat"

definition usage :: "unit io" where
  "usage =
     seq (printf (''Usage: cx861xx_flash read|write|writeslow FILE'' @ LF)) (\<lambda>_.
     seq (printf ('' read      = read from flash into FILE'' @ LF)) (\<lambda>_.
     seq (printf ('' write     = write from FILE to flash'' @ LF)) (\<lambda>_.
     printf ('' writeslow = write from FILE to flash, check status after each word'' @ LF))))"

text \<open>
  \<^verbatim>\<open>main\<close>, from the point where the device is open and its interface claimed:
  \<open>cx861xx\<close> tells which of the two devices was found. The exit codes 1 and 2 of the
  part before belong to libusb's device discovery. \<^verbatim>\<open>perror\<close> is recorded by its
  argument; the text the C library adds for \<^verbatim>\<open>errno\<close> is not.
\<close>

definition main :: "nat \<Rightarrow> device \<Rightarrow> host \<Rightarrow> bool \<Rightarrow> string list \<Rightarrow> int io" where
  "main fuel dev host cx861xx argv w0 =
     (let w = w0\<lparr>flash_base := (if cx861xx then 0x04000000 else 0x0400000)\<rparr> in
      if length argv < 3 then seq usage (\<lambda>_. exit 3) w
      else
        seq (if cx861xx
             then seq (cx_write_mem dev CX861XX_FLASH_ENABLE 1 [1] MA_BYTE) (\<lambda>r. ret ())
             else ret ()) (\<lambda>_.
        seq (cx_flash_write dev 0 INTEL_CMD_READ) (\<lambda>_.
        seq (cx_flash_write dev 0 AMD_CMD_RESET) (\<lambda>_.
        seq (flash_identify fuel dev) (\<lambda>found.
        case found of
          None \<Rightarrow> seq (printf (''Unsupported flash type'' @ LF)) (\<lambda>_. exit 6)
        | Some flash \<Rightarrow>
            (case h_malloc host (unat (c_size flash)) of
               None \<Rightarrow>
                 seq (fprintf_stderr (''Memory allocation error, %d bytes required.'' @ LF)
                        [uint (c_size flash)]) (\<lambda>_. exit 4)
             | Some buf \<Rightarrow>
                 if argv ! 1 = ''write'' \<or> argv ! 1 = ''writeslow'' then
                   (case h_fopen_r host (argv ! 2) of
                      None \<Rightarrow> seq (fprintf_stderr ''Error opening file'' []) (\<lambda>_. exit 5)
                    | Some content \<Rightarrow>
                        (let len = min (length content) (unat (c_size flash)) in
                         if len < unat (c_size flash)
                         then seq (fprintf_stderr (''Error reading file, must be %d bytes long'' @ LF)
                                     [uint (c_size flash)]) (\<lambda>_. exit 5)
                         else seq (write_blocks fuel dev flash (take len content @ drop len buf)
                                     (argv ! 1 = ''writeslow'') (c_blocks flash) 0) (\<lambda>_. ret 0)))
                 else if argv ! 1 = ''read'' then
                   (if \<not> h_fopen_w host (argv ! 2)
                    then seq (fprintf_stderr ''Error opening file'' []) (\<lambda>_. exit 5)
                    else
                      seq (\<lambda>w1. cx_read_mem fuel dev (flash_base w1) (c_size flash) buf MA_WORD w1)
                        (\<lambda>(r, buf') w2.
                           (let n = h_fwrite host (take (unat (c_size flash)) buf');
                                w3 = w2\<lparr>outfile := take n buf'\<rparr>
                            in if n \<noteq> unat (c_size flash)
                               then seq (fprintf_stderr (''Error writing file'' @ LF) []) (\<lambda>_. exit 5) w3
                               else ret 0 w3)))
                 else seq usage (\<lambda>_. exit 3)))))) w)"

section \<open>Notions used to state the properties\<close>

text \<open>
  The catalogue is the array of supported chips up to its end marker, and the blocks of
  a chip are its block array up to the entry whose count is 0. \<open>block_total\<close> adds up
  count times size over the blocks, in natural numbers.
\<close>

definition catalog :: "flash_chip list" where
  "catalog = takeWhile (\<lambda>c. c_mfg c \<noteq> 0) supported_chips"

definition blocks_of :: "flash_chip \<Rightarrow> block_desc list" where
  "blocks_of c = takeWhile (\<lambda>b. b_count b \<noteq> 0) (c_blocks c)"

definition block_total :: "block_desc list \<Rightarrow> nat" where
  "block_total bs = sum_list (map (\<lambda>b. unat (b_count b) * unat (b_size b)) bs)"

text \<open>
  The packet \<^verbatim>\<open>cx_write_mem\<close> builds for at most 56 bytes, the world after an OUT transfer
  of a packet (the packet is on the bus; a negative return value is reported on
  \<^verbatim>\<open>stderr\<close>) and after a sequence of them, and the packet of a 16-bit flash write.
\<close>

definition write_packet :: "u32 \<Rightarrow> u8 list \<Rightarrow> u8 \<Rightarrow> cx_fw_packet" where
  "write_packet addr bytes access_type =
     \<lparr>p_cmd = FW_WRITE_MEM, p_byte_count = of_nat (length bytes), p_access_type = access_type,
      p_ack_request = 0, p_address = addr,
      p_data = bytes @ replicate (sizeof_data - length bytes) 0\<rparr>"

definition usb_error :: "string \<Rightarrow> int \<Rightarrow> message list" where
  "usb_error s r = (if r < 0 then [Fprintf_stderr s [r]] else [])"

definition sent :: "device \<Rightarrow> cx_fw_packet \<Rightarrow> world \<Rightarrow> world" where
  "sent dev p w =
     w\<lparr>bus := bus w @ [Out p],
       tty := tty w @ usb_error (''Error sending USB request: %d'' @ LF) (usb_out dev (bus w) p)\<rparr>"

fun sends :: "device \<Rightarrow> cx_fw_packet list \<Rightarrow> world \<Rightarrow> world" where
  "sends dev [] w = w"
| "sends dev (p # ps) w = sends dev ps (sent dev p w)"

definition flash_write_packet :: "u32 \<Rightarrow> u16 \<Rightarrow> cx_fw_packet" where
  "flash_write_packet a v = write_packet a (u16_bytes v) MA_WORD"

text \<open>The packets of the memory write command among the events of a bus history.\<close>

fun writes :: "event list \<Rightarrow> cx_fw_packet list" where
  "writes [] = []"
| "writes (Out p # es) = (if p_cmd p = FW_WRITE_MEM then p # writes es else writes es)"
| "writes (In r p # es) = writes es"

text \<open>
  A run of reads leaves \<^verbatim>\<open>flash_base\<close> and the image file alone and adds to the bus
  history read requests and replies only.
\<close>

definition read_request :: "u32 \<Rightarrow> u32 \<Rightarrow> u8 \<Rightarrow> cx_fw_packet" where
  "read_request addr cnt access_type =
     zero_packet\<lparr>p_cmd := FW_READ_MEM, p_byte_count := chunk cnt, p_access_type := access_type,
       p_ack_request := 1, p_address := addr\<rparr>"

definition is_read_event :: "u8 \<Rightarrow> event \<Rightarrow> bool" where
  "is_read_event access_type e =
     (case e of
        Out p \<Rightarrow> p_cmd p = FW_READ_MEM \<and> unat (p_byte_count p) \<le> sizeof_data \<and>
                 p_access_type p = access_type \<and> p_ack_request p = 1
      | In r p \<Rightarrow> True)"

definition reads_only :: "u8 \<Rightarrow> world \<Rightarrow> world \<Rightarrow> bool" where
  "reads_only access_type w w' \<longleftrightarrow>
     flash_base w' = flash_base w \<and> outfile w' = outfile w \<and>
     (\<exists>es. bus w' = bus w @ es \<and> list_all (is_read_event access_type) es)"

text \<open>
  The packets \<^verbatim>\<open>program_block\<close> sends for the word at index \<open>i\<close> of the block at \<open>addr\<close>,
  with \<open>c\<close> the chip's program command and \<open>base\<close> the value of \<^verbatim>\<open>flash_base\<close>, and the
  indices of the words of a block that are not \<^verbatim>\<open>0xffff\<close>, in increasing order.
\<close>

definition program_word_packets :: "u16 \<Rightarrow> u32 \<Rightarrow> u32 \<Rightarrow> u16 list \<Rightarrow> nat \<Rightarrow> cx_fw_packet list" where
  "program_word_packets c base addr dat i =
     (if i = 0
      then [flash_write_packet (base + addr) c,
            flash_write_packet (base + (addr + of_nat i * 2)) (dat ! i)]
      else [write_packet (base + (addr + of_nat i * 2) - 2) (u16_bytes c @ u16_bytes (dat ! i)) MA_WORD])"

definition words_to_program :: "u16 list \<Rightarrow> nat \<Rightarrow> nat \<Rightarrow> nat list" where
  "words_to_program dat i n = filter (\<lambda>j. dat ! j \<noteq> 0xffff) [i..<n]"

text \<open>
  Example worlds and devices, for instances of the properties: the world at the start of
  a run; a device on which every transfer times out (libusb's \<^verbatim>\<open>LIBUSB_ERROR_TIMEOUT\<close> is
  -7); and a device that accepts every packet and answers the \<open>k\<close>-th IN transfer with
  one packet of two bytes, the \<open>k\<close>-th word of a script (the last word once the script
  is used up).
\<close>

definition fresh :: "u32 \<Rightarrow> world" where
  "fresh base = \<lparr>flash_base = base, bus = [], tty = [], outfile = []\<rparr>"

definition silent :: device where
  "silent = \<lparr>usb_out = (\<lambda>h p. - 7), usb_in = (\<lambda>h. (- 7, zero_packet)), indeterminate = (\<lambda>h. 0)\<rparr>"

definition reply :: "u16 \<Rightarrow> cx_fw_packet" where
  "reply v = zero_packet\<lparr>p_byte_count := 2, p_data := u16_bytes v @ replicate 54 0\<rparr>"

fun replies_so_far :: "event list \<Rightarrow> nat" where
  "replies_so_far [] = 0"
| "replies_so_far (Out p # es) = replies_so_far es"
| "replies_so_far (In r p # es) = Suc (replies_so_far es)"

definition scripted :: "u16 list \<Rightarrow> device" where
  "scripted script =
     \<lparr>usb_out = (\<lambda>h p. 0),
      usb_in = (\<lambda>h. (0, reply (script ! min (replies_so_far h) (length script - 1)))),
      indeterminate = (\<lambda>h. 0)\<rparr>"

text \<open>
  \<open>k\<close> calls of \<^verbatim>\<open>cx_flash_read(dev, addr)\<close> one after the other, with the values they
  return: the words a polling loop sees.
\<close>

fun flash_reads :: "nat \<Rightarrow> device \<Rightarrow> u32 \<Rightarrow> nat \<Rightarrow> u16 list io" where
  "flash_reads fuel dev addr 0 = ret []"
| "flash_reads fuel dev addr (Suc k) =
     seq (cx_flash_read fuel dev addr) (\<lambda>s.
     seq (flash_reads fuel dev addr k) (\<lambda>ss. ret (s # ss)))"

text \<open>What \<^verbatim>\<open>intel_decode_status\<close> prints for a status word.\<close>

definition decoded :: "u16 \<Rightarrow> message list" where
  "decoded status =
     [Printf ''Status decode: ''] @
     (if status AND INTEL_ST_READY \<noteq> 0 then [Printf ''READY ''] else []) @
     (if status AND INTEL_ST_ERASESUSPEND \<noteq> 0 then [Printf ''ERASE_SUSPEND ''] else []) @
     (if status AND INTEL_ST_ERASEERROR \<noteq> 0 then [Printf ''ERASE_ERROR ''] else []) @
     (if status AND INTEL_ST_PROGRAMERROR \<noteq> 0 then [Printf ''PROGRAM_ERROR ''] else []) @
     (if status AND INTEL_ST_VPPERROR \<noteq> 0 then [Printf ''VPP_ERROR ''] else []) @
     (if status AND INTEL_ST_PROGRAMSUSPEND \<noteq> 0 then [Printf ''PROGRAM_SUSPEND ''] else []) @
     (if status AND INTEL_ST_LOCKED \<noteq> 0 then [Printf ''LOCKED ''] else []) @
     [Printf LF]"


text \<open>
  The packets handed to the OUT endpoint among the events of a bus history, and the
  address and byte count of a packet.
\<close>

fun outs :: "event list \<Rightarrow> cx_fw_packet list" where
  "outs [] = []"
| "outs (Out p # es) = p # outs es"
| "outs (In r p # es) = outs es"






text \<open>
  The world in which \<^verbatim>\<open>main\<close> calls \<^verbatim>\<open>flash_identify\<close>: \<^verbatim>\<open>flash_base\<close> is set, flash
  access is enabled on the CX861xx, and the two reset commands are written. And an
  example host, on which nothing can be allocated or opened.
\<close>

definition before_identify :: "device \<Rightarrow> bool \<Rightarrow> world \<Rightarrow> world" where
  "before_identify dev cx861xx w0 =
     (let base = (if cx861xx then 0x04000000 else 0x0400000) in
      sends dev
        ((if cx861xx then [write_packet CX861XX_FLASH_ENABLE [1] MA_BYTE] else []) @
         [flash_write_packet (base + 0) INTEL_CMD_READ,
          flash_write_packet (base + 0) AMD_CMD_RESET])
        (w0\<lparr>flash_base := base\<rparr>))"

definition bare_host :: host where
  "bare_host = \<lparr>h_malloc = (\<lambda>n. None), h_fopen_r = (\<lambda>name. None), h_fopen_w = (\<lambda>name. False),
     h_fwrite = (\<lambda>bytes. 0)\<rparr>"

text \<open>
  For an instance of the engine: an Intel 28F320C3B whose programming voltage is low (it
  identifies itself, then answers every status read with READY and VPP_ERROR); an image
  of 4 MiB of 0xff; a host that allocates the buffer and opens the file holding a given
  image; and the twelve flash writes of the block loop of \<^verbatim>\<open>main\<close> for a block of that
  chip that has no word to program: unlock, erase, program, lock.
\<close>

definition vpp_low :: device where
  "vpp_low = scripted [0x0089, 0x88c5, 0x88]"

definition blank_image :: "u8 list" where
  "blank_image = replicate 4194304 0xff"

definition image_host :: "u8 list \<Rightarrow> host" where
  "image_host img = \<lparr>h_malloc = (\<lambda>n. Some (replicate n 0)), h_fopen_r = (\<lambda>name. Some img),
     h_fopen_w = (\<lambda>name. True), h_fwrite = length\<rparr>"

definition blank_block_writes :: "u32 \<Rightarrow> u32 \<Rightarrow> cx_fw_packet list" where
  "blank_block_writes base addr =
     [flash_write_packet (base + addr) INTEL_CMD_LOCKMODE,
      flash_write_packet (base + addr) INTEL_CMD_UNLOCK,
      flash_write_packet (base + 0) INTEL_CMD_CLEARSTATUS,
      flash_write_packet (base + 0) INTEL_CMD_READSTATUS,
      flash_write_packet (base + addr) INTEL_CMD_ERASE,
      flash_write_packet (base + addr) INTEL_CMD_ERASECONFIRM,
      flash_write_packet (base + 0) INTEL_CMD_READ,
      flash_write_packet (base + 0) INTEL_CMD_CLEARSTATUS,
      flash_write_packet (base + 0) INTEL_CMD_READSTATUS,
      flash_write_packet (base + 0) INTEL_CMD_READ,
      flash_write_packet (base + addr) INTEL_CMD_LOCKMODE,
      flash_write_packet (base + addr) INTEL_CMD_LOCK]"

text \<open>A device that accepts every packet and lets every IN transfer time out.\<close>

definition mute :: device where
  "mute = \<lparr>usb_out = (\<lambda>h p. 0), usb_in = (\<lambda>h. (- 7, zero_packet)), indeterminate = (\<lambda>h. 0)\<rparr>"
section \<open>Sequencing\<close>

lemma seq_ret [simp]: "seq (ret x) f = f x"
  by (rule ext) (simp add: seq_def ret_def)

lemma seq_Returns: "m w = (Returns x, w') \<Longrightarrow> seq m f w = f x w'"
  by (simp add: seq_def)

lemma seq_fault [simp]: "seq fault f = fault"
  by (rule ext) (simp add: seq_def fault_def)

lemma seq_exit [simp]: "seq (exit c) f = exit c"
  by (rule ext) (simp add: seq_def exit_def)

lemma sent_simps [simp]:
  "bus (sent dev p w) = bus w @ [Out p]"
  "flash_base (sent dev p w) = flash_base w"
  "outfile (sent dev p w) = outfile w"
  by (simp_all add: sent_def)

lemma sends_simps [simp]:
  "bus (sends dev ps w) = bus w @ map Out ps"
  "flash_base (sends dev ps w) = flash_base w"
  "outfile (sends dev ps w) = outfile w"
  by (induction ps arbitrary: w) simp_all

lemma sends_append: "sends dev (ps @ qs) w = sends dev qs (sends dev ps w)"
  by (induction ps arbitrary: w) simp_all

lemma writes_append [simp]: "writes (es @ fs) = writes es @ writes fs"
  by (induction es rule: writes.induct) simp_all

lemma writes_map_Out: "writes (map Out ps) = filter (\<lambda>p. p_cmd p = FW_WRITE_MEM) ps"
  by (induction ps) simp_all

section \<open>Memory writes of one packet\<close>

lemma cx_write_mem_0 [simp]: "cx_write_mem dev addr 0 buf access_type w = (Returns 0, w)"
  by (simp add: cx_write_mem.simps ret_def)

lemma chunk_small: "unat cnt \<le> sizeof_data \<Longrightarrow> chunk cnt = of_nat (unat cnt)"
  by (simp add: chunk_def sizeof_data_def word_less_nat_alt unsigned_of_nat)

text \<open>
  A write of 1 to 56 bytes is one packet. The call returns libusb's value if that is
  negative and 0 otherwise.
\<close>

lemma cx_write_mem_one_packet:
  assumes "0 < cnt" and "unat cnt \<le> sizeof_data" and "length bytes = unat cnt"
  shows "cx_write_mem dev addr cnt bytes access_type w =
           (Returns (min 0 (usb_out dev (bus w) (write_packet addr bytes access_type))),
            sent dev (write_packet addr bytes access_type) w)"
proof -
  have c: "chunk cnt = of_nat (length bytes)"
    using assms by (simp add: chunk_small)
  have u: "unat (chunk cnt) = length bytes"
    using assms by (simp add: unat_chunk)
  have z: "cnt - ucast (chunk cnt) = 0"
    using assms by (simp add: word_eq_iff_unsigned [where ?'a = nat] unat_minus_chunk)
  have p: "zero_packet\<lparr>p_cmd := FW_WRITE_MEM, p_byte_count := chunk cnt,
               p_access_type := access_type, p_ack_request := 0, p_address := addr,
               p_data := bytes @ replicate (sizeof_data - length bytes) 0\<rparr>
           = write_packet addr bytes access_type"
    by (simp add: zero_packet_def write_packet_def c)
  show ?thesis
    using assms u
    apply (subst cx_write_mem.simps)
    apply (simp add: Let_def memcpy_def seq_def ret_def libusb_bulk_transfer_def z
        fprintf_stderr_def zero_packet_def sizeof_data_def split: prod.splits)
    apply (simp add: write_packet_def c sent_def usb_error_def sizeof_data_def)
    done
qed

section \<open>Flash writes\<close>

lemma length_u16_bytes [simp]: "length (u16_bytes v) = 2"
  by (simp add: u16_bytes_def)

lemma cx_flash_write_sent:
  "cx_flash_write dev addr v w = (Returns (), sent dev (flash_write_packet (flash_base w + addr) v) w)"
  by (simp add: cx_flash_write_def flash_write_packet_def seq_def ret_def
      cx_write_mem_one_packet sizeof_data_def)

lemma cx_flash_cmd_sent:
  "cx_flash_cmd dev c w =
     (Returns (), sends dev [flash_write_packet (flash_base w + 0xaaa) 0xaa,
                            flash_write_packet (flash_base w + 0x554) 0x55,
                            flash_write_packet (flash_base w + 0xaaa) (ucast c)] w)"
  by (simp add: cx_flash_cmd_def seq_def cx_flash_write_sent)

lemma intel_optimized_program_word_sent:
  "intel_optimized_program_word dev addr v w =
     (Returns (), sent dev (write_packet (flash_base w + addr - 2)
                              (u16_bytes INTEL_CMD_PROGRAM @ u16_bytes v) MA_WORD) w)"
  by (simp add: intel_optimized_program_word_def seq_def ret_def
      cx_write_mem_one_packet sizeof_data_def)

lemma amd_optimized_program_word_sent:
  "amd_optimized_program_word dev addr v w =
     (Returns (), sent dev (write_packet (flash_base w + addr - 2)
                              (u16_bytes AMD_CMD_PROGRAM @ u16_bytes v) MA_WORD) w)"
  by (simp add: amd_optimized_program_word_def seq_def ret_def
      cx_write_mem_one_packet sizeof_data_def)

lemma intel_set_block_lock_sent:
  "intel_set_block_lock dev addr lock w =
     (Returns (), sends dev [flash_write_packet (flash_base w + addr) INTEL_CMD_LOCKMODE,
                            flash_write_packet (flash_base w + addr)
                              (if lock then INTEL_CMD_LOCK else INTEL_CMD_UNLOCK)] w)"
  by (simp add: intel_set_block_lock_def seq_def cx_flash_write_sent)

section \<open>Memory reads\<close>

lemma reads_only_refl [simp]: "reads_only a w w"
  by (simp add: reads_only_def)

lemma reads_only_trans: "reads_only a w w1 \<Longrightarrow> reads_only a w1 w2 \<Longrightarrow> reads_only a w w2"
  by (auto simp: reads_only_def)

lemma reads_only_tty [simp]: "reads_only a w (w'\<lparr>tty := t\<rparr>) = reads_only a w w'"
  by (simp add: reads_only_def)

lemma reads_only_In: "reads_only a w w1 \<Longrightarrow> reads_only a w (w1\<lparr>bus := bus w1 @ [In r p]\<rparr>)"
  by (auto simp: reads_only_def is_read_event_def)

lemma reads_only_Out:
  "reads_only a w w1 \<Longrightarrow> reads_only a w (w1\<lparr>bus := bus w1 @ [Out (read_request addr cnt a)]\<rparr>)"
  by (auto simp: reads_only_def is_read_event_def read_request_def unat_chunk)

lemma cx_read_replies_reads_only:
  "reads_only a w0 w \<Longrightarrow>
   reads_only a w0 (snd (cx_read_replies n dev packet pbc cnt addr dst off w))"
proof (induction n arbitrary: packet pbc cnt addr dst off w)
  case 0
  then show ?case by (simp add: ret_def)
next
  case (Suc n)
  show ?case
  proof (cases "pbc > 0")
    case False
    with Suc.prems show ?thesis by (simp add: ret_def)
  next
    case True
    obtain r p where u: "usb_in dev (bus w) = (r, p)"
      by (cases "usb_in dev (bus w)")
    let ?w1 = "w\<lparr>bus := bus w @ [In r p]\<rparr>"
    have w1: "reads_only a w0 ?w1"
      using Suc.prems by (rule reads_only_In)
    show ?thesis
    proof (cases "r < 0")
      case True
      with \<open>pbc > 0\<close> u w1 show ?thesis
        by (simp add: seq_def libusb_bulk_transfer_def fprintf_stderr_def ret_def)
    next
      case False
      show ?thesis
      proof (cases "unat (p_byte_count p) \<le> length (take sizeof_data (p_data p)) \<and>
                    off + unat (p_byte_count p) \<le> length dst")
        case True
        with \<open>pbc > 0\<close> \<open>\<not> r < 0\<close> u Suc.IH [OF w1] show ?thesis
          by (simp add: seq_def libusb_bulk_transfer_def memcpy_def ret_def)
      next
        case False
        with \<open>pbc > 0\<close> \<open>\<not> r < 0\<close> u w1 show ?thesis
          by (auto simp: seq_def libusb_bulk_transfer_def memcpy_def fault_def)
      qed
    qed
  qed
qed

lemma cx_read_mem_loop_reads_only:
  "reads_only a w0 w \<Longrightarrow>
   reads_only a w0 (snd (cx_read_mem_loop n fuel dev addr cnt dst off a w))"
proof (induction n arbitrary: addr cnt dst off w)
  case 0
  then show ?case by (simp add: ret_def)
next
  case (Suc n)
  show ?case
  proof (cases "cnt > 0")
    case False
    with Suc.prems show ?thesis by (simp add: ret_def)
  next
    case True
    let ?p = "read_request addr cnt a"
    let ?w1 = "w\<lparr>bus := bus w @ [Out ?p]\<rparr>"
    have w1: "reads_only a w0 ?w1"
      using Suc.prems by (rule reads_only_Out)
    show ?thesis
    proof (cases "usb_out dev (bus w) ?p < 0")
      case True
      with \<open>cnt > 0\<close> w1 show ?thesis
        by (simp add: Let_def seq_def libusb_bulk_transfer_def fprintf_stderr_def ret_def read_request_def)
    next
      case False
      obtain res w2 where r: "cx_read_replies fuel dev zero_packet (chunk cnt) cnt addr dst off ?w1 = (res, w2)"
        by (cases "cx_read_replies fuel dev zero_packet (chunk cnt) cnt addr dst off ?w1")
      have w2: "reads_only a w0 w2"
        using cx_read_replies_reads_only [OF w1, of fuel dev zero_packet "chunk cnt" cnt addr dst off] r
        by simp
      show ?thesis
      proof (cases res)
        case (Returns x)
        obtain dst' y where x: "x = (dst', y)" by (cases x)
        show ?thesis
        proof (cases y)
          case (Inl r')
          with True False r Returns x w2 show ?thesis
            by (simp add: Let_def seq_def libusb_bulk_transfer_def ret_def read_request_def)
        next
          case (Inr z)
          obtain cnt' addr' off' where z: "z = (cnt', addr', off')" by (cases z)
          from True False r Returns x Inr z Suc.IH [OF w2, of addr' cnt' dst' off'] show ?thesis
            by (simp add: Let_def seq_def libusb_bulk_transfer_def read_request_def)
        qed
      qed (use True False r w2 in \<open>simp_all add: Let_def seq_def libusb_bulk_transfer_def read_request_def\<close>)
    qed
  qed
qed

lemma cx_flash_read_reads_only: "reads_only MA_WORD w (snd (cx_flash_read fuel dev addr w))"
proof -
  obtain res w1 where r: "cx_read_mem fuel dev (flash_base w + addr) 2
      (u16_bytes (indeterminate dev (bus w))) MA_WORD w = (res, w1)"
    by (cases "cx_read_mem fuel dev (flash_base w + addr) 2
      (u16_bytes (indeterminate dev (bus w))) MA_WORD w")
  have "reads_only MA_WORD w w1"
    using cx_read_mem_loop_reads_only [OF reads_only_refl, of MA_WORD w fuel fuel dev
        "flash_base w + addr" 2 "u16_bytes (indeterminate dev (bus w))" 0] r
    by (simp add: cx_read_mem_def)
  with r show ?thesis
    by (cases res) (auto simp: cx_flash_read_def seq_def ret_def split: prod.splits)
qed

section \<open>Programming without status checks\<close>

lemma words_to_program_Nil [simp]: "n \<le> i \<Longrightarrow> words_to_program dat i n = []"
  by (simp add: words_to_program_def)

lemma words_to_program_step:
  "i < n \<Longrightarrow> words_to_program dat i n =
     (if dat ! i \<noteq> 0xffff then [i] else []) @ words_to_program dat (Suc i) n"
  by (simp add: words_to_program_def upt_conv_Cons)

lemma intel_program_word_sends:
  "(if i = 0
    then seq (cx_flash_write dev addr INTEL_CMD_PROGRAM) (\<lambda>_.
           cx_flash_write dev (addr + of_nat i * 2) (dat ! i))
    else intel_optimized_program_word dev (addr + of_nat i * 2) (dat ! i)) w =
   (Returns (), sends dev (program_word_packets INTEL_CMD_PROGRAM (flash_base w) addr dat i) w)"
  by (simp add: program_word_packets_def seq_def cx_flash_write_sent
      intel_optimized_program_word_sent)

lemma amd_program_word_sends:
  "(if i = 0
    then seq (cx_flash_write dev addr AMD_CMD_PROGRAM) (\<lambda>_.
           cx_flash_write dev (addr + of_nat i * 2) (dat ! i))
    else amd_optimized_program_word dev (addr + of_nat i * 2) (dat ! i)) w =
   (Returns (), sends dev (program_word_packets AMD_CMD_PROGRAM (flash_base w) addr dat i) w)"
  by (simp add: program_word_packets_def seq_def cx_flash_write_sent
      amd_optimized_program_word_sent)

lemma intel_program_loop_fast:
  assumes "unat (sz div 2) \<le> length dat"
  shows "i \<le> unat (sz div 2) \<Longrightarrow>
     intel_program_loop fuel dev addr dat sz False i w =
       (Returns True,
        sends dev (concat (map (program_word_packets INTEL_CMD_PROGRAM (flash_base w) addr dat)
                     (words_to_program dat i (unat (sz div 2))))) w)"
proof (induction "unat (sz div 2) - i" arbitrary: i w)
  case 0
  then show ?case
    by (subst intel_program_loop.simps) (simp add: ret_def)
next
  case (Suc k)
  then have lt: "i < unat (sz div 2)" and k: "k = unat (sz div 2) - Suc i"
    by simp_all
  from lt assms have len: "\<not> length dat \<le> i"
    by simp
  show ?case
  proof (cases "dat ! i = 0xffff")
    case True
    with lt len Suc.hyps(1) [OF k, of w] show ?thesis
      by (subst intel_program_loop.simps) (simp add: words_to_program_step)
  next
    case False
    let ?w1 = "sends dev (program_word_packets INTEL_CMD_PROGRAM (flash_base w) addr dat i) w"
    from lt have "Suc i \<le> unat (sz div 2)"
      by simp
    from Suc.hyps(1) [OF k this, of ?w1] False lt len show ?thesis
      apply (subst intel_program_loop.simps)
      apply (simp only: if_True if_False simp_thms)
      apply (subst seq_Returns [OF intel_program_word_sends])
      apply (simp add: words_to_program_step sends_append)
      done
  qed
qed

lemma amd_program_loop_fast:
  assumes "unat (sz div 2) \<le> length dat"
  shows "i \<le> unat (sz div 2) \<Longrightarrow>
     amd_program_loop fuel dev addr dat sz False i w =
       (Returns True,
        sends dev (concat (map (program_word_packets AMD_CMD_PROGRAM (flash_base w) addr dat)
                     (words_to_program dat i (unat (sz div 2))))) w)"
proof (induction "unat (sz div 2) - i" arbitrary: i w)
  case 0
  then show ?case
    by (subst amd_program_loop.simps) (simp add: ret_def)
next
  case (Suc k)
  then have lt: "i < unat (sz div 2)" and k: "k = unat (sz div 2) - Suc i"
    by simp_all
  from lt assms have len: "\<not> length dat \<le> i"
    by simp
  show ?case
  proof (cases "dat ! i = 0xffff")
    case True
    with lt len Suc.hyps(1) [OF k, of w] show ?thesis
      by (subst amd_program_loop.simps) (simp add: words_to_program_step)
  next
    case False
    let ?w1 = "sends dev (program_word_packets AMD_CMD_PROGRAM (flash_base w) addr dat i) w"
    from lt have "Suc i \<le> unat (sz div 2)"
      by simp
    from Suc.hyps(1) [OF k this, of ?w1] False lt len show ?thesis
      apply (subst amd_program_loop.simps)
      apply (simp only: if_True if_False simp_thms)
      apply (subst seq_Returns [OF amd_program_word_sends])
      apply (simp add: words_to_program_step sends_append)
      done
  qed
qed

text \<open>The packets a whole \<^verbatim>\<open>program_block\<close> sends when no status is checked.\<close>

lemma intel_program_block_fast:
  assumes "unat (sz div 2) \<le> length dat"
  shows "intel_program_block fuel dev addr dat sz False w =
     (Returns True,
      sends dev ([flash_write_packet (flash_base w + 0) INTEL_CMD_CLEARSTATUS,
                  flash_write_packet (flash_base w + 0) INTEL_CMD_READSTATUS] @
                 concat (map (program_word_packets INTEL_CMD_PROGRAM (flash_base w) addr dat)
                           (words_to_program dat 0 (unat (sz div 2)))) @
                 [flash_write_packet (flash_base w + 0) INTEL_CMD_READ]) w)"
  by (simp add: intel_program_block_def seq_def cx_flash_write_sent
      intel_program_loop_fast [OF assms] sends_append ret_def)

lemma amd_program_block_fast:
  assumes "unat (sz div 2) \<le> length dat"
  shows "amd_program_block fuel dev addr dat sz False w =
     (Returns True,
      sends dev ([flash_write_packet (flash_base w + 0xaaa) 0xaa,
                  flash_write_packet (flash_base w + 0x554) 0x55,
                  flash_write_packet (flash_base w + 0xaaa) AMD_CMD_UNLOCK_BYPASS] @
                 concat (map (program_word_packets AMD_CMD_PROGRAM (flash_base w) addr dat)
                           (words_to_program dat 0 (unat (sz div 2)))) @
                 [flash_write_packet (flash_base w + 0) AMD_CMD_BYPASS_RESET1,
                  flash_write_packet (flash_base w + 0) AMD_CMD_BYPASS_RESET2]) w)"
  by (simp add: amd_program_block_def seq_def cx_flash_cmd_sent cx_flash_write_sent
      amd_program_loop_fast [OF assms] sends_append ret_def)

section \<open>Flash reads and polling\<close>

lemma seq_eq_Returns:
  "seq m f w = (Returns y, w') \<longleftrightarrow> (\<exists>x w1. m w = (Returns x, w1) \<and> f x w1 = (Returns y, w'))"
  by (cases "m w") (auto simp: seq_def split: outcome.splits)

lemma ret_eq [simp]: "ret x w = (r, w') \<longleftrightarrow> r = Returns x \<and> w' = w"
  by (auto simp: ret_def)




lemma intel_wait_ready_Returns:
  "intel_wait_ready n fuel dev w = (Returns s, w') \<Longrightarrow> s AND INTEL_ST_READY \<noteq> 0"
proof (induction n arbitrary: w)
  case 0
  then show ?case by simp
next
  case (Suc n)
  then show ?case
    by (auto simp: seq_eq_Returns split: if_splits)
qed

text \<open>
  If the first \<open>k\<close> status reads find the chip busy and the next one finds it ready,
  the loop ends with that status after exactly these reads.
\<close>

lemma intel_wait_ready_reads:
  assumes "flash_reads fuel dev 0 (Suc k) w = (Returns (ss @ [s]), w')"
    and "\<forall>x \<in> set ss. x AND INTEL_ST_READY = 0" and "s AND INTEL_ST_READY \<noteq> 0" and "k < n"
  shows "intel_wait_ready n fuel dev w = (Returns s, w')"
  using assms
proof (induction k arbitrary: n w ss)
  case 0
  then obtain m where n: "n = Suc m"
    by (cases n) simp_all
  from 0 show ?case
    by (auto simp: n seq_eq_Returns seq_Returns)
next
  case (Suc k)
  then obtain m where n: "n = Suc m" and m: "k < m"
    by (cases n) simp_all
  from Suc.prems(1) obtain s0 w1 rest where
    r0: "cx_flash_read fuel dev 0 w = (Returns s0, w1)" and
    r1: "flash_reads fuel dev 0 (Suc k) w1 = (Returns rest, w')" and
    eq: "ss @ [s] = s0 # rest"
    by (subst (asm) flash_reads.simps) (auto simp: seq_eq_Returns)
  from r1 have "rest \<noteq> []"
    by (auto simp: seq_eq_Returns)
  with eq obtain ss' where ss: "ss = s0 # ss'" and rest: "rest = ss' @ [s]"
    by (cases ss) auto
  from Suc.prems(2) ss have busy: "s0 AND INTEL_ST_READY = 0" and rest_busy: "\<forall>x \<in> set ss'. x AND INTEL_ST_READY = 0"
    by simp_all
  have "intel_wait_ready m fuel dev w1 = (Returns s, w')"
    using Suc.IH [OF r1 [unfolded rest] rest_busy Suc.prems(3) m] .
  with r0 busy show ?case
    by (simp add: n seq_Returns)
qed

text \<open>
  A flash read on a device that accepts the request and answers at once with one packet
  of two bytes.
\<close>

lemma bytes_u16_bytes [simp]: "bytes_u16 (u16_bytes v) = v"
proof -
  have "(ucast (ucast v :: u8) :: u16) OR push_bit 8 (ucast (ucast (drop_bit 8 v) :: u8)) = v"
    by (rule bit_word_eqI) (auto simp: bit_simps)
  then show ?thesis
    by (simp add: bytes_u16_def u16_bytes_def)
qed

lemma cx_flash_read_answered:
  assumes "\<not> usb_out dev (bus w) (read_request (flash_base w + addr) 2 MA_WORD) < 0"
    and "usb_in dev (bus w @ [Out (read_request (flash_base w + addr) 2 MA_WORD)]) = (r, p)"
    and "\<not> r < 0" and "p_byte_count p = 2" and "2 \<le> length (p_data p)" and "0 < fuel"
  shows "cx_flash_read fuel dev addr w =
           (Returns (bytes_u16 (take 2 (p_data p))),
            w\<lparr>bus := bus w @ [Out (read_request (flash_base w + addr) 2 MA_WORD), In r p]\<rparr>)"
proof -
  from assms(6) obtain f where f: "fuel = Suc f"
    by (cases fuel) simp_all
  have c: "chunk 2 = 2"
    by (simp add: chunk_def sizeof_data_def)
  have inner: "cx_read_replies f dev p 0 0 (flash_base w + addr + 2) dst 2 w2 =
      (Returns (dst, Inr (0, flash_base w + addr + 2, 2)), w2)" for dst w2
    by (cases f) (simp_all add: ret_def)
  have outer: "cx_read_mem_loop f g dev (flash_base w + addr + 2) 0 dst 2 MA_WORD w2 =
      (Returns (0, dst), w2)" for g dst w2
    by (cases f) (simp_all add: ret_def)
  show ?thesis
    using assms(1-5)
    by (simp add: cx_flash_read_def cx_read_mem_def f Let_def seq_def libusb_bulk_transfer_def
        read_request_def c memcpy_def sizeof_data_def ret_def inner outer)
qed

lemma printf_eq [simp]: "printf s w = (Returns (), w\<lparr>tty := tty w @ [Printf s]\<rparr>)"
  by (simp add: printf_def)

lemma flash_reads_reads_only:
  "reads_only MA_WORD w0 w \<Longrightarrow> reads_only MA_WORD w0 (snd (flash_reads fuel dev addr k w))"
proof (induction k arbitrary: w)
  case 0
  then show ?case by (simp add: ret_def)
next
  case (Suc k)
  obtain r w1 where r: "cx_flash_read fuel dev addr w = (r, w1)"
    by (cases "cx_flash_read fuel dev addr w")
  have w1: "reads_only MA_WORD w0 w1"
    using reads_only_trans [OF Suc.prems cx_flash_read_reads_only [of w fuel dev addr]] r by simp
  obtain r2 w2 where r2: "flash_reads fuel dev addr k w1 = (r2, w2)"
    by (cases "flash_reads fuel dev addr k w1")
  with Suc.IH [OF w1] have w2: "reads_only MA_WORD w0 w2"
    by simp
  show ?case
    using r w1 r2 w2
    by (cases r; cases r2) (simp_all add: seq_def ret_def)
qed

lemma flash_reads_flash_base:
  "flash_reads fuel dev addr k w = (r, w') \<Longrightarrow> flash_base w' = flash_base w"
  using flash_reads_reads_only [OF reads_only_refl, of w fuel dev addr k]
  by (simp add: reads_only_def)

lemma flash_reads_split:
  assumes "flash_reads fuel dev addr (Suc (Suc k)) w = (Returns (ss @ [s]), w')"
  obtains s0 w1 ss' where "cx_flash_read fuel dev addr w = (Returns s0, w1)"
    and "flash_reads fuel dev addr (Suc k) w1 = (Returns (ss' @ [s]), w')"
    and "ss = s0 # ss'"
proof -
  from assms obtain s0 w1 rest where
    r0: "cx_flash_read fuel dev addr w = (Returns s0, w1)" and
    r1: "flash_reads fuel dev addr (Suc k) w1 = (Returns rest, w')" and
    eq: "ss @ [s] = s0 # rest"
    by (subst (asm) flash_reads.simps) (auto simp: seq_eq_Returns)
  from r1 have "rest \<noteq> []"
    by (auto simp: seq_eq_Returns)
  with eq obtain ss' where "ss = s0 # ss'" and "rest = ss' @ [s]"
    by (cases ss) auto
  with r0 r1 that show ?thesis
    by simp
qed

lemma flash_reads_one:
  "flash_reads fuel dev addr (Suc 0) w = (Returns (ss @ [s]), w') \<longleftrightarrow>
     ss = [] \<and> cx_flash_read fuel dev addr w = (Returns s, w')"
  by (auto simp: seq_eq_Returns)

text \<open>The data polling loop of the AMD erase after \<open>k\<close> reads that tell it to go on.\<close>

lemma amd_erase_poll_reads:
  assumes "flash_reads fuel dev addr (Suc k) w = (Returns (ss @ [s]), w')"
    and "\<forall>x \<in> set ss. x AND AMD_ST_DATAPOLL = 0 \<and> x AND AMD_ST_TIMEOUT = 0" and "k < n"
  shows "amd_erase_poll n fuel dev addr w =
     (if s AND AMD_ST_DATAPOLL = 0 \<and> s AND AMD_ST_TIMEOUT \<noteq> 0
      then (Returns False,
            sent dev (flash_write_packet (flash_base w + 0) AMD_CMD_RESET)
              (w'\<lparr>tty := tty w' @ [Printf (''Error: TIMEOUT!'' @ LF)]\<rparr>))
      else if s AND AMD_ST_DATAPOLL = 0 then amd_erase_poll (n - Suc k) fuel dev addr w'
      else (Returns True, w'))"
  using assms
proof (induction k arbitrary: n w ss)
  case 0
  then obtain m where n: "n = Suc m"
    by (cases n) simp_all
  from "0.prems"(1) have r: "cx_flash_read fuel dev addr w = (Returns s, w')"
    by (simp only: flash_reads_one)
  have fb: "flash_base w' = flash_base w"
    using cx_flash_read_reads_only [of w fuel dev addr] r by (simp add: reads_only_def)
  from r fb show ?case
    by (simp add: n seq_Returns seq_def cx_flash_write_sent ret_def)
next
  case (Suc k)
  then obtain m where n: "n = Suc m" and m: "k < m"
    by (cases n) simp_all
  from Suc.prems(1) obtain s0 w1 ss' where
    r0: "cx_flash_read fuel dev addr w = (Returns s0, w1)" and
    r1: "flash_reads fuel dev addr (Suc k) w1 = (Returns (ss' @ [s]), w')" and
    ss: "ss = s0 # ss'"
    by (rule flash_reads_split)
  have fb: "flash_base w1 = flash_base w"
    using cx_flash_read_reads_only [of w fuel dev addr] r0 by (simp add: reads_only_def)
  from Suc.prems(2) ss have go: "s0 AND AMD_ST_DATAPOLL = 0" "s0 AND AMD_ST_TIMEOUT = 0"
    and rest: "\<forall>x \<in> set ss'. x AND AMD_ST_DATAPOLL = 0 \<and> x AND AMD_ST_TIMEOUT = 0"
    by simp_all
  from Suc.IH [OF r1 rest m] r0 go fb show ?case
    by (simp add: n seq_Returns)
qed

text \<open>The example device answers a flash read with the next word of its script.\<close>

lemma replies_so_far_append [simp]:
  "replies_so_far (es @ fs) = replies_so_far es + replies_so_far fs"
  by (induction es rule: replies_so_far.induct) simp_all

lemma cx_flash_read_scripted:
  assumes "0 < fuel"
  shows "cx_flash_read fuel (scripted script) addr w =
     (Returns (script ! min (replies_so_far (bus w)) (length script - 1)),
      w\<lparr>bus := bus w @ [Out (read_request (flash_base w + addr) 2 MA_WORD),
                         In 0 (reply (script ! min (replies_so_far (bus w)) (length script - 1)))]\<rparr>)"
proof -
  let ?v = "script ! min (replies_so_far (bus w)) (length script - 1)"
  have "cx_flash_read fuel (scripted script) addr w =
     (Returns (bytes_u16 (take 2 (p_data (reply ?v)))),
      w\<lparr>bus := bus w @ [Out (read_request (flash_base w + addr) 2 MA_WORD), In 0 (reply ?v)]\<rparr>)"
    by (rule cx_flash_read_answered) (simp_all add: scripted_def reply_def assms)
  then show ?thesis
    by (simp add: reply_def)
qed

section \<open>The Intel erase\<close>

lemma intel_decode_status_eq:
  "intel_decode_status status w = (Returns (), w\<lparr>tty := tty w @ decoded status\<rparr>)"
  by (simp add: intel_decode_status_def decoded_def seq_def print_if_def ret_def)

text \<open>
  \<^verbatim>\<open>intel_erase_block\<close> when the status register is read busy \<open>k\<close> times and then ready:
  the read array command is written in either case, before the status is judged.
\<close>

lemma intel_erase_block_reads:
  assumes "flash_reads fuel dev 0 (Suc k)
             (sends dev [flash_write_packet (flash_base w + 0) INTEL_CMD_CLEARSTATUS,
                         flash_write_packet (flash_base w + 0) INTEL_CMD_READSTATUS,
                         flash_write_packet (flash_base w + addr) INTEL_CMD_ERASE,
                         flash_write_packet (flash_base w + addr) INTEL_CMD_ERASECONFIRM] w)
           = (Returns (ss @ [s]), w')"
    and "\<forall>x \<in> set ss. x AND INTEL_ST_READY = 0" and "s AND INTEL_ST_READY \<noteq> 0" and "k < fuel"
  shows "intel_erase_block fuel dev addr w =
     (if s AND INTEL_ST_ERROR_MASK \<noteq> 0
      then (Returns False,
            (sent dev (flash_write_packet (flash_base w + 0) INTEL_CMD_READ) w')
              \<lparr>tty := tty (sent dev (flash_write_packet (flash_base w + 0) INTEL_CMD_READ) w') @
                 Printf (''Error!'' @ LF) # decoded s\<rparr>)
      else (Returns True, sent dev (flash_write_packet (flash_base w + 0) INTEL_CMD_READ) w'))"
proof -
  have fb: "flash_base w' = flash_base w"
    using flash_reads_flash_base [OF assms(1)] by simp
  show ?thesis
    using intel_wait_ready_reads [OF assms] fb
    by (simp add: intel_erase_block_def seq_def cx_flash_write_sent intel_decode_status_eq ret_def)
qed

lemma usb_out_scripted [simp]: "usb_out (scripted script) h p = 0"
  by (simp add: scripted_def)

lemma sent_scripted [simp]:
  "sent (scripted script) p w = w\<lparr>bus := bus w @ [Out p]\<rparr>"
  by (simp add: sent_def usb_error_def)

section \<open>Programming in general\<close>

lemma p_cmd_write_packet [simp]:
  "p_cmd (write_packet a bytes access_type) = FW_WRITE_MEM"
  "p_cmd (flash_write_packet a v) = FW_WRITE_MEM"
  by (simp_all add: flash_write_packet_def write_packet_def)

lemma writes_program_word_packets [simp]:
  "writes (map Out (program_word_packets c base addr dat i)) = program_word_packets c base addr dat i"
  by (simp add: program_word_packets_def flash_write_packet_def write_packet_def)

lemma writes_flash_write_packet [simp]:
  "writes (Out (flash_write_packet a v) # es) = flash_write_packet a v # writes es"
  by (simp add: flash_write_packet_def write_packet_def)











section \<open>Addresses of the words of a block\<close>




section \<open>Chunking of memory transfers\<close>

lemma outs_append [simp]: "outs (es @ fs) = outs es @ outs fs"
  by (induction es rule: outs.induct) simp_all

lemma outs_map_Out [simp]: "outs (map Out ps) = ps"
  by (induction ps) simp_all









section \<open>Identification\<close>

lemma find_chip_intel:
  "find_chip supported_chips 0x0089 0x88c5 w = (Returns (Some (supported_chips ! 0)), w)"
  by (simp add: supported_chips_def ret_def)

lemma find_chip_unknown:
  assumes "(m, d) \<notin> set (map (\<lambda>c. (c_mfg c, c_dev c)) catalog)"
  shows "find_chip supported_chips m d w = (Returns None, w)"
  using assms by (auto simp: catalog_def supported_chips_def ret_def)

lemma flash_identify_reads:
  assumes "cx_flash_read fuel dev 0
             (sends dev [flash_write_packet (flash_base w + 0xaaa) 0xaa,
                         flash_write_packet (flash_base w + 0x554) 0x55,
                         flash_write_packet (flash_base w + 0xaaa) FLASH_CMD_ID] w) = (Returns m, w1)"
    and "cx_flash_read fuel dev 2 w1 = (Returns d, w2)"
  shows "flash_identify fuel dev w =
     find_chip supported_chips m d
       (sends dev [flash_write_packet (flash_base w + 0) INTEL_CMD_READ,
                   flash_write_packet (flash_base w + 0) AMD_CMD_RESET] w2)"
proof -
  have "reads_only MA_WORD (sends dev [flash_write_packet (flash_base w + 0xaaa) 0xaa,
                         flash_write_packet (flash_base w + 0x554) 0x55,
                         flash_write_packet (flash_base w + 0xaaa) FLASH_CMD_ID] w) w1"
    using cx_flash_read_reads_only [of _ fuel dev 0] assms(1) by (metis snd_conv)
  moreover have "reads_only MA_WORD w1 w2"
    using cx_flash_read_reads_only [of w1 fuel dev 2] assms(2) by simp
  ultimately have fb: "flash_base w2 = flash_base w"
    by (simp add: reads_only_def)
  show ?thesis
    using assms fb
    by (simp add: flash_identify_def seq_def cx_flash_cmd_sent cx_flash_write_sent)
qed

lemma flash_enable_sent:
  "cx_write_mem dev a 1 [1] MA_BYTE w =
      (Returns (min 0 (usb_out dev (bus w) (write_packet a [1] MA_BYTE))),
       sent dev (write_packet a [1] MA_BYTE) w)"
  by (rule cx_write_mem_one_packet) (simp_all add: sizeof_data_def)

lemma main_unknown_chip:
  assumes "3 \<le> length argv"
    and "flash_identify fuel dev (before_identify dev cx861xx w0) = (Returns None, w')"
  shows "main fuel dev host cx861xx argv w0 =
     (Exits 6, w'\<lparr>tty := tty w' @ [Printf (''Unsupported flash type'' @ LF)]\<rparr>)"
proof -
  from assms(1) have "\<not> length argv < 3"
    by simp
  with assms(2) show ?thesis
    by (cases cx861xx)
       (simp_all add: main_def before_identify_def Let_def seq_def flash_enable_sent
          cx_flash_write_sent ret_def exit_def)
qed

section \<open>Transport errors\<close>

lemma cx_write_mem_first_fails:
  assumes "0 < cnt" and "min sizeof_data (unat cnt) \<le> length buf"
    and "usb_out dev (bus w) (write_packet addr (take (min sizeof_data (unat cnt)) buf) access_type) < 0"
  shows "cx_write_mem dev addr cnt buf access_type w =
     (Returns (usb_out dev (bus w) (write_packet addr (take (min sizeof_data (unat cnt)) buf) access_type)),
      w\<lparr>bus := bus w @ [Out (write_packet addr (take (min sizeof_data (unat cnt)) buf) access_type)],
        tty := tty w @ [Fprintf_stderr (''Error sending USB request: %d'' @ LF)
          [usb_out dev (bus w) (write_packet addr (take (min sizeof_data (unat cnt)) buf) access_type)]]\<rparr>)"
proof -
  have "chunk cnt = of_nat (unat (chunk cnt))"
    by simp
  then have c: "chunk cnt = of_nat (min sizeof_data (unat cnt))"
    by (simp only: unat_chunk)
  have q: "write_packet addr (take (min sizeof_data (unat cnt)) buf) access_type =
      \<lparr>p_cmd = FW_WRITE_MEM, p_byte_count = chunk cnt, p_access_type = access_type,
       p_ack_request = 0, p_address = addr,
       p_data = take (min 56 (unat cnt)) buf @ replicate (56 - min 56 (unat cnt)) 0\<rparr>"
    using assms(2) by (simp add: write_packet_def c min_absorb2 sizeof_data_def)
  show ?thesis
    using assms(1,3) assms(2) [unfolded sizeof_data_def] unfolding q
    apply (subst cx_write_mem.simps)
    apply (simp add: Let_def memcpy_def seq_def ret_def unat_chunk zero_packet_def sizeof_data_def
        libusb_bulk_transfer_def fprintf_stderr_def)
    done
qed

lemma cx_read_mem_request_fails:
  assumes "0 < cnt" and "usb_out dev (bus w) (read_request addr cnt access_type) < 0"
  shows "cx_read_mem (Suc fuel) dev addr cnt dst access_type w =
     (Returns (usb_out dev (bus w) (read_request addr cnt access_type), dst),
      w\<lparr>bus := bus w @ [Out (read_request addr cnt access_type)],
        tty := tty w @ [Fprintf_stderr (''Error sending USB request: %d'' @ LF)
          [usb_out dev (bus w) (read_request addr cnt access_type)]]\<rparr>)"
  using assms
  by (simp add: cx_read_mem_def Let_def seq_def libusb_bulk_transfer_def fprintf_stderr_def
      ret_def read_request_def)

lemma cx_read_mem_reply_fails:
  assumes "0 < cnt" and "\<not> usb_out dev (bus w) (read_request addr cnt access_type) < 0"
    and "usb_in dev (bus w @ [Out (read_request addr cnt access_type)]) = (r, q)" and "r < 0"
  shows "cx_read_mem (Suc fuel) dev addr cnt dst access_type w =
     (Returns (r, dst),
      w\<lparr>bus := bus w @ [Out (read_request addr cnt access_type), In r q],
        tty := tty w @ [Fprintf_stderr (''Error reading data: %d'' @ LF) [r]]\<rparr>)"
proof -
  from assms(1) have "0 < unat cnt"
    by (simp add: word_less_nat_alt)
  then have "0 < unat (chunk cnt)"
    by (simp add: unat_chunk sizeof_data_def)
  then have c: "0 < chunk cnt"
    by (simp add: word_less_nat_alt)
  show ?thesis
    using assms c
    by (simp add: cx_read_mem_def Let_def seq_def libusb_bulk_transfer_def fprintf_stderr_def
        ret_def read_request_def)
qed

section \<open>The block loop of the engine\<close>

lemma main_write:
  assumes "3 \<le> length argv"
    and "flash_identify fuel dev (before_identify dev cx861xx w0) = (Returns (Some flash), w')"
    and "h_malloc host (unat (c_size flash)) = Some buf" and "argv ! 1 = ''write''"
    and "h_fopen_r host (argv ! 2) = Some content" and "unat (c_size flash) \<le> length content"
  shows "main fuel dev host cx861xx argv w0 =
     seq (write_blocks fuel dev flash
            (take (unat (c_size flash)) content @ drop (unat (c_size flash)) buf) False
            (c_blocks flash) 0) (\<lambda>_. ret 0) w'"
proof -
  from assms(1) have "\<not> length argv < 3"
    by simp
  with assms(2-6) show ?thesis
    by (cases cx861xx)
       (simp_all add: main_def before_identify_def Let_def seq_def flash_enable_sent
          cx_flash_write_sent ret_def min_absorb2)
qed

lemma bytes_words_replicate:
  "bytes_words (replicate (2 * n) b) = replicate n (bytes_u16 [b, b]) \<and>
   bytes_words (replicate (Suc (2 * n)) b) = replicate n (bytes_u16 [b, b])"
  by (induction n) simp_all

lemma bytes_words_blank:
  "bytes_words (replicate m 0xff) = replicate (m div 2) 0xffff"
proof -
  have b: "bytes_u16 [0xff, 0xff] = 0xffff"
    by (simp add: bytes_u16_def)
  show ?thesis
  proof (cases "even m")
    case True
    then obtain n where "m = 2 * n"
      by (auto elim: evenE)
    then show ?thesis
      using bytes_words_replicate [of n "0xff"] by (simp add: b)
  next
    case False
    then obtain n where "m = Suc (2 * n)"
      by (auto elim: oddE)
    then show ?thesis
      using bytes_words_replicate [of n "0xff"] by (simp add: b)
  qed
qed

lemma words_to_program_blank:
  "n \<le> k \<Longrightarrow> words_to_program (replicate k 0xffff) i n = []"
  by (simp add: words_to_program_def filter_empty_conv)

lemma intel_program_block_blank:
  assumes "unat addr + unat sz \<le> 4194304"
  shows "intel_program_block fuel dev addr (bytes_words (drop (unat addr) blank_image)) sz False w =
     (Returns True,
      sends dev [flash_write_packet (flash_base w + 0) INTEL_CMD_CLEARSTATUS,
                 flash_write_packet (flash_base w + 0) INTEL_CMD_READSTATUS,
                 flash_write_packet (flash_base w + 0) INTEL_CMD_READ] w)"
proof -
  have d: "bytes_words (drop (unat addr) blank_image) = replicate ((4194304 - unat addr) div 2) 0xffff"
    by (simp add: blank_image_def bytes_words_blank)
  have u: "unat (sz div 2) = unat sz div 2"
    by (simp add: unat_div)
  have n: "unat (sz div 2) \<le> (4194304 - unat addr) div 2"
    using assms unfolding u by (intro div_le_mono) simp
  then have len: "unat (sz div 2) \<le> length (bytes_words (drop (unat addr) blank_image))"
    by (simp add: d)
  show ?thesis
    unfolding intel_program_block_fast [OF len]
    by (simp add: d words_to_program_blank [OF n])
qed

lemma intel_erase_block_vpp_low:
  assumes "2 \<le> replies_so_far (bus w)"
  shows "\<exists>w'. intel_erase_block (Suc f) vpp_low addr w = (Returns False, w') \<and>
     flash_base w' = flash_base w \<and> 2 \<le> replies_so_far (bus w') \<and>
     writes (bus w') = writes (bus w) @
       [flash_write_packet (flash_base w + 0) INTEL_CMD_CLEARSTATUS,
        flash_write_packet (flash_base w + 0) INTEL_CMD_READSTATUS,
        flash_write_packet (flash_base w + addr) INTEL_CMD_ERASE,
        flash_write_packet (flash_base w + addr) INTEL_CMD_ERASECONFIRM,
        flash_write_packet (flash_base w + 0) INTEL_CMD_READ] \<and>
     tty w' = tty w @ Printf (''Error!'' @ LF) # decoded 0x88"
proof -
  let ?ps = "[flash_write_packet (flash_base w + 0) INTEL_CMD_CLEARSTATUS,
              flash_write_packet (flash_base w + 0) INTEL_CMD_READSTATUS,
              flash_write_packet (flash_base w + addr) INTEL_CMD_ERASE,
              flash_write_packet (flash_base w + addr) INTEL_CMD_ERASECONFIRM]"
  let ?w1 = "sends vpp_low ?ps w"
  let ?w2 = "?w1\<lparr>bus := bus ?w1 @ [Out (read_request (flash_base ?w1 + 0) 2 MA_WORD),
                                      In 0 (reply 0x88)]\<rparr>"
  have m: "min (replies_so_far (bus w)) (Suc (Suc 0)) = Suc (Suc 0)"
    using assms by simp
  have r: "cx_flash_read (Suc f) vpp_low 0 ?w1 = (Returns 0x88, ?w2)"
    unfolding vpp_low_def cx_flash_read_scripted [OF zero_less_Suc]
    by (simp add: writes_map_Out m)
  then have fr: "flash_reads (Suc f) vpp_low 0 (Suc 0) ?w1 = (Returns ([] @ [0x88]), ?w2)"
    unfolding flash_reads_one by simp
  have e: "intel_erase_block (Suc f) vpp_low addr w =
      (Returns False,
       (sent vpp_low (flash_write_packet (flash_base w + 0) INTEL_CMD_READ) ?w2)
         \<lparr>tty := tty (sent vpp_low (flash_write_packet (flash_base w + 0) INTEL_CMD_READ) ?w2) @
            Printf (''Error!'' @ LF) # decoded 0x88\<rparr>)"
    using intel_erase_block_reads [OF fr] by simp
  have t: "tty (sends vpp_low ?ps w) = tty w"
    by (simp add: vpp_low_def)
  show ?thesis
    unfolding e using assms t
    by (simp add: vpp_low_def read_request_def)
qed

lemma write_block_blank:
  assumes "2 \<le> replies_so_far (bus w)" and "unat addr + unat sz \<le> 4194304"
  shows "\<exists>w'. write_block (Suc f) vpp_low (supported_chips ! 0) blank_image False addr sz w
       = (Returns (), w') \<and>
     flash_base w' = flash_base w \<and> 2 \<le> replies_so_far (bus w') \<and>
     writes (bus w') = writes (bus w) @ blank_block_writes (flash_base w) addr \<and>
     tty w' = tty w @ Printf (''Error!'' @ LF) # decoded 0x88"
proof -
  let ?w1 = "sends vpp_low [flash_write_packet (flash_base w + addr) INTEL_CMD_LOCKMODE,
                            flash_write_packet (flash_base w + addr) INTEL_CMD_UNLOCK] w"
  have r1: "2 \<le> replies_so_far (bus ?w1)"
    using assms(1) by (simp add: writes_map_Out)
  from intel_erase_block_vpp_low [OF r1, of f addr]
  obtain w2 where e: "intel_erase_block (Suc f) vpp_low addr ?w1 = (Returns False, w2)"
    and w2: "flash_base w2 = flash_base w" "2 \<le> replies_so_far (bus w2)"
      "writes (bus w2) = writes (bus ?w1) @
         [flash_write_packet (flash_base w + 0) INTEL_CMD_CLEARSTATUS,
          flash_write_packet (flash_base w + 0) INTEL_CMD_READSTATUS,
          flash_write_packet (flash_base w + addr) INTEL_CMD_ERASE,
          flash_write_packet (flash_base w + addr) INTEL_CMD_ERASECONFIRM,
          flash_write_packet (flash_base w + 0) INTEL_CMD_READ]"
      "tty w2 = tty ?w1 @ Printf (''Error!'' @ LF) # decoded 0x88"
    by auto
  have t: "tty ?w1 = tty w"
    by (simp add: vpp_low_def)
  have chip: "set_block_lock (supported_chips ! 0) = Some intel_set_block_lock"
    "erase_block (supported_chips ! 0) = Some intel_erase_block"
    "program_block (supported_chips ! 0) = Some intel_program_block"
    by (simp_all add: supported_chips_def)
  have p: "intel_program_block (Suc f) vpp_low addr (bytes_words (drop (unat addr) blank_image))
        sz False w2 =
     (Returns True,
      sends vpp_low [flash_write_packet (flash_base w2 + 0) INTEL_CMD_CLEARSTATUS,
                     flash_write_packet (flash_base w2 + 0) INTEL_CMD_READSTATUS,
                     flash_write_packet (flash_base w2 + 0) INTEL_CMD_READ] w2)"
    by (rule intel_program_block_blank [OF assms(2)])
  have wb: "write_block (Suc f) vpp_low (supported_chips ! 0) blank_image False addr sz w =
     (Returns (),
      sends vpp_low [flash_write_packet (flash_base w + 0) INTEL_CMD_CLEARSTATUS,
                     flash_write_packet (flash_base w + 0) INTEL_CMD_READSTATUS,
                     flash_write_packet (flash_base w + 0) INTEL_CMD_READ,
                     flash_write_packet (flash_base w + addr) INTEL_CMD_LOCKMODE,
                     flash_write_packet (flash_base w + addr) INTEL_CMD_LOCK] w2)"
    using e by (simp add: write_block_def chip seq_def intel_set_block_lock_sent p w2(1))
  show ?thesis
    unfolding wb using w2 t
    by (simp add: vpp_low_def blank_block_writes_def)
qed

lemma write_region_blank:
  assumes "2 \<le> replies_so_far (bus w)" and "unat addr + n * unat (b_size b) \<le> 4194304"
    and "j + n = unat (b_count b)"
  shows "\<exists>w'. write_region (Suc f) vpp_low (supported_chips ! 0) blank_image False b j addr w
       = (Returns (addr + of_nat n * b_size b), w') \<and>
     flash_base w' = flash_base w \<and> 2 \<le> replies_so_far (bus w') \<and>
     writes (bus w') = writes (bus w) @
       concat (map (\<lambda>i. blank_block_writes (flash_base w) (addr + of_nat i * b_size b)) [0..<n]) \<and>
     tty w' = tty w @ concat (replicate n (Printf (''Error!'' @ LF) # decoded 0x88))"
  using assms
proof (induction n arbitrary: j addr w)
  case 0
  then show ?case
    by (subst write_region.simps) (simp add: ret_def)
next
  case (Suc n)
  have sz: "unat addr + unat (b_size b) \<le> 4194304"
    using Suc.prems(2) by simp
  from write_block_blank [OF Suc.prems(1) sz, of f]
  obtain w1 where wb: "write_block (Suc f) vpp_low (supported_chips ! 0) blank_image False addr
        (b_size b) w = (Returns (), w1)"
    and w1: "flash_base w1 = flash_base w" "2 \<le> replies_so_far (bus w1)"
      "writes (bus w1) = writes (bus w) @ blank_block_writes (flash_base w) addr"
      "tty w1 = tty w @ Printf (''Error!'' @ LF) # decoded 0x88"
    by auto
  have u: "unat (addr + b_size b) = unat addr + unat (b_size b)"
    using sz by (simp add: unat_add_lem [THEN iffD1])
  have rest: "unat (addr + b_size b) + n * unat (b_size b) \<le> 4194304"
    using Suc.prems(2) by (simp add: u)
  have j: "Suc j + n = unat (b_count b)"
    using Suc.prems(3) by simp
  from Suc.IH [OF w1(2) rest j]
  obtain w' where wr: "write_region (Suc f) vpp_low (supported_chips ! 0) blank_image False b
        (Suc j) (addr + b_size b) w1 = (Returns (addr + b_size b + of_nat n * b_size b), w')"
    and w': "flash_base w' = flash_base w1" "2 \<le> replies_so_far (bus w')"
      "writes (bus w') = writes (bus w1) @
         concat (map (\<lambda>i. blank_block_writes (flash_base w1)
                            (addr + b_size b + of_nat i * b_size b)) [0..<n])"
      "tty w' = tty w1 @ concat (replicate n (Printf (''Error!'' @ LF) # decoded 0x88))"
    by auto
  have lt: "j < unat (b_count b)"
    using Suc.prems(3) by simp
  have step: "write_region (Suc f) vpp_low (supported_chips ! 0) blank_image False b j addr w =
      (Returns (addr + b_size b + of_nat n * b_size b), w')"
    by (subst write_region.simps) (simp add: lt seq_def wb wr)
  have a: "addr + b_size b + of_nat n * b_size b = addr + of_nat (Suc n) * b_size b"
    by (simp add: algebra_simps)
  have m: "map (\<lambda>i. blank_block_writes (flash_base w) (addr + of_nat i * b_size b)) [0..<Suc n] =
      blank_block_writes (flash_base w) addr #
      map (\<lambda>i. blank_block_writes (flash_base w) (addr + b_size b + of_nat i * b_size b)) [0..<n]"
    unfolding upt_conv_Cons [OF zero_less_Suc] map_Suc_upt [symmetric]
    by (simp add: algebra_simps comp_def)
  show ?case
    unfolding step a [symmetric] m using w1 w'
    by (simp add: a)
qed

lemma write_blocks_blank:
  assumes "2 \<le> replies_so_far (bus w)"
  shows "\<exists>w'. write_blocks (Suc f) vpp_low (supported_chips ! 0) blank_image False
         (c_blocks (supported_chips ! 0)) 0 w = (Returns (), w') \<and>
     writes (bus w') = writes (bus w) @
       concat (map (blank_block_writes (flash_base w))
                 (map (\<lambda>i. of_nat i * 0x2000) [0..<8] @
                  map (\<lambda>i. 0x10000 + of_nat i * 0x10000) [0..<63])) \<and>
     tty w' = tty w @ concat (replicate 71 (Printf (''Error!'' @ LF) # decoded 0x88))"
proof -
  let ?b0 = "\<lparr>b_count = 8, b_size = 0x2000\<rparr>"
  let ?b1 = "\<lparr>b_count = 63, b_size = 0x10000\<rparr>"
  have blocks: "\<exists>bs. c_blocks (supported_chips ! 0) = ?b0 # ?b1 # \<lparr>b_count = 0, b_size = 0\<rparr> # bs"
    by (simp add: supported_chips_def block_array_def)
  then obtain bs where bs: "c_blocks (supported_chips ! 0) = ?b0 # ?b1 # \<lparr>b_count = 0, b_size = 0\<rparr> # bs"
    by blast
  from write_region_blank [OF assms, of 0 8 ?b0 0 f]
  obtain w1 where r1: "write_region (Suc f) vpp_low (supported_chips ! 0) blank_image False ?b0 0 0 w
        = (Returns 0x10000, w1)"
    and w1: "flash_base w1 = flash_base w" "2 \<le> replies_so_far (bus w1)"
      "writes (bus w1) = writes (bus w) @
         concat (map (\<lambda>i. blank_block_writes (flash_base w) (of_nat i * 0x2000)) [0..<8])"
      "tty w1 = tty w @ concat (replicate 8 (Printf (''Error!'' @ LF) # decoded 0x88))"
    by auto
  from write_region_blank [OF w1(2), of "0x10000" 63 ?b1 0 f]
  obtain w2 where r2: "write_region (Suc f) vpp_low (supported_chips ! 0) blank_image False ?b1 0
        0x10000 w1 = (Returns 0x400000, w2)"
    and w2: "writes (bus w2) = writes (bus w1) @
         concat (map (\<lambda>i. blank_block_writes (flash_base w1) (0x10000 + of_nat i * 0x10000)) [0..<63])"
      "tty w2 = tty w1 @ concat (replicate 63 (Printf (''Error!'' @ LF) # decoded 0x88))"
    by auto
  have wb: "write_blocks (Suc f) vpp_low (supported_chips ! 0) blank_image False
      (c_blocks (supported_chips ! 0)) 0 w = (Returns (), w2)"
    by (simp add: bs seq_def r1 r2 ret_def)
  have t: "replicate 71 (Printf (''Error!'' @ LF) # decoded 0x88) =
      replicate 8 (Printf (''Error!'' @ LF) # decoded 0x88) @
      replicate 63 (Printf (''Error!'' @ LF) # decoded 0x88)"
    unfolding replicate_add [symmetric] by simp
  show ?thesis
    unfolding wb t using w1 w2
    by (simp add: comp_def)
qed

lemma tty_sends_scripted [simp]: "tty (sends (scripted script) ps w) = tty w"
  by (induction ps arbitrary: w) simp_all

lemma flash_identify_vpp_low:
  "\<exists>w'. flash_identify (Suc f) vpp_low (before_identify vpp_low True (fresh 0))
       = (Returns (Some (supported_chips ! 0)), w') \<and>
     flash_base w' = 0x04000000 \<and> replies_so_far (bus w') = 2 \<and> tty w' = [] \<and>
     writes (bus w') =
       [write_packet CX861XX_FLASH_ENABLE [1] MA_BYTE,
        flash_write_packet 0x04000000 INTEL_CMD_READ,
        flash_write_packet 0x04000000 AMD_CMD_RESET,
        flash_write_packet 0x04000aaa 0xaa,
        flash_write_packet 0x04000554 0x55,
        flash_write_packet 0x04000aaa FLASH_CMD_ID,
        flash_write_packet 0x04000000 INTEL_CMD_READ,
        flash_write_packet 0x04000000 AMD_CMD_RESET]"
proof -
  let ?v = "before_identify vpp_low True (fresh 0)"
  let ?ids = "[flash_write_packet (flash_base ?v + 0xaaa) 0xaa,
               flash_write_packet (flash_base ?v + 0x554) 0x55,
               flash_write_packet (flash_base ?v + 0xaaa) FLASH_CMD_ID]"
  obtain v1 where s1: "cx_flash_read (Suc f) vpp_low 0 (sends vpp_low ?ids ?v) = (Returns 0x0089, v1)"
    and v1: "writes (bus v1) =
      [write_packet CX861XX_FLASH_ENABLE [1] MA_BYTE,
       flash_write_packet 0x04000000 INTEL_CMD_READ,
       flash_write_packet 0x04000000 AMD_CMD_RESET,
       flash_write_packet 0x04000aaa 0xaa,
       flash_write_packet 0x04000554 0x55,
       flash_write_packet 0x04000aaa FLASH_CMD_ID]" "flash_base v1 = 0x04000000"
      "replies_so_far (bus v1) = 1" "tty v1 = []"
    by (simp add: vpp_low_def cx_flash_read_scripted before_identify_def fresh_def read_request_def)
  obtain v2 where s2: "cx_flash_read (Suc f) vpp_low 2 v1 = (Returns 0x88c5, v2)"
    and v2: "writes (bus v2) = writes (bus v1)" "flash_base v2 = flash_base v1"
      "replies_so_far (bus v2) = 2" "tty v2 = tty v1"
    by (simp add: vpp_low_def cx_flash_read_scripted read_request_def v1(3))
  have fb: "flash_base ?v = 0x04000000"
    by (simp add: before_identify_def)
  show ?thesis
    unfolding flash_identify_reads [OF s1 s2] find_chip_intel
    using v1 v2 fb by (simp add: vpp_low_def writes_map_Out)
qed

lemma cx_flash_read_request_fails:
  assumes "usb_out dev (bus w) (read_request (flash_base w + a) 2 MA_WORD) < 0"
  shows "\<exists>v. cx_flash_read (Suc fuel) dev a w =
     (Returns v,
      w\<lparr>bus := bus w @ [Out (read_request (flash_base w + a) 2 MA_WORD)],
        tty := tty w @ [Fprintf_stderr (''Error sending USB request: %d'' @ LF)
          [usb_out dev (bus w) (read_request (flash_base w + a) 2 MA_WORD)]]\<rparr>)"
  using assms
  by (simp add: cx_flash_read_def seq_def ret_def
      cx_read_mem_request_fails [of 2 dev w "flash_base w + a" MA_WORD fuel])

lemma cx_flash_read_reply_fails:
  assumes "\<not> usb_out dev (bus w) (read_request (flash_base w + a) 2 MA_WORD) < 0"
    and "usb_in dev (bus w @ [Out (read_request (flash_base w + a) 2 MA_WORD)]) = (r, q)"
    and "r < 0"
  shows "\<exists>v. cx_flash_read (Suc fuel) dev a w =
     (Returns v,
      w\<lparr>bus := bus w @ [Out (read_request (flash_base w + a) 2 MA_WORD), In r q],
        tty := tty w @ [Fprintf_stderr (''Error reading data: %d'' @ LF) [r]]\<rparr>)"
proof -
  have "cx_read_mem (Suc fuel) dev (flash_base w + a) 2 dst MA_WORD w =
     (Returns (r, dst),
      w\<lparr>bus := bus w @ [Out (read_request (flash_base w + a) 2 MA_WORD), In r q],
        tty := tty w @ [Fprintf_stderr (''Error reading data: %d'' @ LF) [r]]\<rparr>)" for dst
    by (rule cx_read_mem_reply_fails [OF _ assms]) simp
  then show ?thesis
    by (simp add: cx_flash_read_def seq_def ret_def)
qed

section \<open>The catalogue\<close>

lemma catalog_eq: "catalog = take 2 supported_chips"
  by (simp add: catalog_def supported_chips_def)

text \<open>
  C7. For every chip of the catalogue, count times size summed over the chip's blocks
  (the block array up to the entry whose count is 0) is the total size the chip declares.
\<close>

theorem catalog_blocks_add_up:
  "\<forall>c \<in> set catalog. block_total (blocks_of c) = unat (c_size c)"
  by (simp add: catalog_eq supported_chips_def blocks_of_def block_array_def block_total_def)

theorem catalog_blocks_add_up_witness:
  "supported_chips ! 1 \<in> set catalog \<and>
   c_name (supported_chips ! 1) = ''MXIC MX29LV160B'' \<and>
   block_total (blocks_of (supported_chips ! 1)) = 2097152 \<and>
   unat (c_size (supported_chips ! 1)) = 2097152"
proof -
  have mem: "supported_chips ! 1 \<in> set catalog"
    by (simp add: catalog_eq supported_chips_def)
  have sz: "unat (c_size (supported_chips ! 1)) = 2097152"
    by (simp add: supported_chips_def)
  have nm: "c_name (supported_chips ! 1) = ''MXIC MX29LV160B''"
    by (simp add: supported_chips_def)
  from catalog_blocks_add_up mem
  have "block_total (blocks_of (supported_chips ! 1)) = unat (c_size (supported_chips ! 1))"
    by blast
  with mem sz nm show ?thesis
    by simp
qed

section \<open>The engine does not look at what erase and program return\<close>

text \<open>
  C1, as stated, fails. On an Intel 28F320C3B that answers every status read with READY
  and VPP_ERROR, a run of \<^verbatim>\<open>write\<close> with a blank image: the erase of block 0, in the
  state in which \<^verbatim>\<open>main\<close> calls it, returns false; yet \<^verbatim>\<open>main\<close> returns 0. After the
  eight writes up to the end of the identification come the twelve writes of block 0
  (the three of \<^verbatim>\<open>intel_program_block\<close> and the two of the lock after the failed erase)
  and then the unlock of the block at 0x2000; in all, the twelve writes of each of the 71
  blocks, and 71 times the message \<^verbatim>\<open>Error!\<close> of \<^verbatim>\<open>intel_erase_block\<close>.
\<close>

theorem failed_erase_does_not_halt_the_run:
  "fst (intel_erase_block 1 vpp_low 0
          (snd (intel_set_block_lock vpp_low 0 False
                  (snd (flash_identify 1 vpp_low (before_identify vpp_low True (fresh 0)))))))
     = Returns False \<and>
   fst (main 1 vpp_low (image_host blank_image) True [''cx861xx_flash'', ''write'', ''image.bin'']
          (fresh 0)) = Returns 0 \<and>
   take 22 (writes (bus (snd (main 1 vpp_low (image_host blank_image) True
                                [''cx861xx_flash'', ''write'', ''image.bin''] (fresh 0))))) =
     [write_packet CX861XX_FLASH_ENABLE [1] MA_BYTE,
      flash_write_packet 0x04000000 INTEL_CMD_READ,
      flash_write_packet 0x04000000 AMD_CMD_RESET,
      flash_write_packet 0x04000aaa 0xaa,
      flash_write_packet 0x04000554 0x55,
      flash_write_packet 0x04000aaa FLASH_CMD_ID,
      flash_write_packet 0x04000000 INTEL_CMD_READ,
      flash_write_packet 0x04000000 AMD_CMD_RESET,
      flash_write_packet 0x04000000 INTEL_CMD_LOCKMODE,
      flash_write_packet 0x04000000 INTEL_CMD_UNLOCK,
      flash_write_packet 0x04000000 INTEL_CMD_CLEARSTATUS,
      flash_write_packet 0x04000000 INTEL_CMD_READSTATUS,
      flash_write_packet 0x04000000 INTEL_CMD_ERASE,
      flash_write_packet 0x04000000 INTEL_CMD_ERASECONFIRM,
      flash_write_packet 0x04000000 INTEL_CMD_READ,
      flash_write_packet 0x04000000 INTEL_CMD_CLEARSTATUS,
      flash_write_packet 0x04000000 INTEL_CMD_READSTATUS,
      flash_write_packet 0x04000000 INTEL_CMD_READ,
      flash_write_packet 0x04000000 INTEL_CMD_LOCKMODE,
      flash_write_packet 0x04000000 INTEL_CMD_LOCK,
      flash_write_packet 0x04002000 INTEL_CMD_LOCKMODE,
      flash_write_packet 0x04002000 INTEL_CMD_UNLOCK] \<and>
   drop 8 (writes (bus (snd (main 1 vpp_low (image_host blank_image) True
                               [''cx861xx_flash'', ''write'', ''image.bin''] (fresh 0))))) =
     concat (map (blank_block_writes 0x04000000)
               (map (\<lambda>i. of_nat i * 0x2000) [0..<8] @
                map (\<lambda>i. 0x10000 + of_nat i * 0x10000) [0..<63])) \<and>
   tty (snd (main 1 vpp_low (image_host blank_image) True
               [''cx861xx_flash'', ''write'', ''image.bin''] (fresh 0))) =
     concat (replicate 71 (Printf (''Error!'' @ LF) # decoded 0x88))"
proof -
  let ?argv = "[''cx861xx_flash'', ''write'', ''image.bin'']"
  let ?pre = "[write_packet CX861XX_FLASH_ENABLE [1] MA_BYTE,
      flash_write_packet 0x04000000 INTEL_CMD_READ,
      flash_write_packet 0x04000000 AMD_CMD_RESET,
      flash_write_packet 0x04000aaa 0xaa,
      flash_write_packet 0x04000554 0x55,
      flash_write_packet 0x04000aaa FLASH_CMD_ID,
      flash_write_packet 0x04000000 INTEL_CMD_READ,
      flash_write_packet 0x04000000 AMD_CMD_RESET]"
  let ?addrs = "map (\<lambda>i. of_nat i * 0x2000) [0..<8] @
                map (\<lambda>i. 0x10000 + of_nat i * 0x10000) [0..<63] :: u32 list"
  from flash_identify_vpp_low [of 0]
  obtain w where id: "flash_identify 1 vpp_low (before_identify vpp_low True (fresh 0))
        = (Returns (Some (supported_chips ! 0)), w)"
    and w: "flash_base w = 0x04000000" "replies_so_far (bus w) = 2" "tty w = []"
      "writes (bus w) = ?pre"
    by auto
  have two: "2 \<le> replies_so_far (bus w)"
    by (simp add: w(2))
  have "2 \<le> replies_so_far (bus (snd (intel_set_block_lock vpp_low 0 False w)))"
    by (simp add: intel_set_block_lock_sent w(2))
  from intel_erase_block_vpp_low [OF this, of 0 0]
  have erase: "fst (intel_erase_block 1 vpp_low 0 (snd (intel_set_block_lock vpp_low 0 False w)))
      = Returns False"
    by auto
  from write_blocks_blank [OF two, of 0]
  obtain w' where wb: "write_blocks 1 vpp_low (supported_chips ! 0) blank_image False
         (c_blocks (supported_chips ! 0)) 0 w = (Returns (), w')"
    and w': "writes (bus w') = writes (bus w) @ concat (map (blank_block_writes (flash_base w)) ?addrs)"
      "tty w' = tty w @ concat (replicate 71 (Printf (''Error!'' @ LF) # decoded 0x88))"
    by auto
  have size: "unat (c_size (supported_chips ! 0)) = 4194304"
    by (simp add: supported_chips_def)
  have "main 1 vpp_low (image_host blank_image) True ?argv (fresh 0) =
     seq (write_blocks 1 vpp_low (supported_chips ! 0)
            (take (unat (c_size (supported_chips ! 0))) blank_image @
             drop (unat (c_size (supported_chips ! 0))) (replicate 4194304 0)) False
            (c_blocks (supported_chips ! 0)) 0) (\<lambda>_. ret 0) w"
    by (rule main_write [OF _ id]) (simp_all add: image_host_def size blank_image_def)
  also have "take (unat (c_size (supported_chips ! 0))) blank_image @
             drop (unat (c_size (supported_chips ! 0))) (replicate 4194304 0) = blank_image"
    by (simp add: size blank_image_def)
  finally have m: "main 1 vpp_low (image_host blank_image) True ?argv (fresh 0) = (Returns 0, w')"
    using wb by (simp add: seq_def ret_def)
  have first: "\<exists>rest. ?addrs = 0 # 0x2000 # rest"
    by (simp add: upt_conv_Cons)
  then obtain rest where rest: "?addrs = 0 # 0x2000 # rest"
    by blast
  have prefix: "take 22 (?pre @ concat (map (blank_block_writes 0x04000000) ?addrs)) =
      ?pre @ blank_block_writes 0x04000000 0 @ take 2 (blank_block_writes 0x04000000 0x2000)"
    unfolding rest by (simp add: blank_block_writes_def)
  from erase m w w' prefix show ?thesis
    unfolding id by (simp add: blank_block_writes_def)
qed

text \<open>
  C1, amended. The block loop of \<^verbatim>\<open>main\<close> does not look at what \<^verbatim>\<open>erase_block\<close> and
  \<^verbatim>\<open>program_block\<close> return. Once the unlock (if the chip has one) has returned, and the
  erase and the programming of the block have returned, true or false, the block ends
  with the lock in the state the programming has left; when a block has returned, the
  loop goes on with the next block of the descriptor at the next address; and when a
  descriptor has returned, with the next descriptor. Only a call that does not return
  ends the run.
\<close>

theorem engine_ignores_erase_and_program_results:
  "(erase_block flash = Some e \<and> program_block flash = Some p \<and>
    (case set_block_lock flash of None \<Rightarrow> ret () | Some l \<Rightarrow> l dev addr False) w = (Returns (), w1) \<and>
    e fuel dev addr w1 = (Returns erased, w2) \<and>
    p fuel dev addr (bytes_words (drop (unat addr) buf)) sz slow w2 = (Returns programmed, w3) \<longrightarrow>
      write_block fuel dev flash buf slow addr sz w =
        (case set_block_lock flash of None \<Rightarrow> ret () | Some l \<Rightarrow> l dev addr True) w3) \<and>
   (j < unat (b_count b) \<and>
    write_block fuel dev flash buf slow addr (b_size b) w = (Returns (), w') \<longrightarrow>
      write_region fuel dev flash buf slow b j addr w =
        write_region fuel dev flash buf slow b (Suc j) (addr + b_size b) w') \<and>
   (0 < b_count b \<and> write_region fuel dev flash buf slow b 0 addr w = (Returns addr', w'') \<longrightarrow>
      write_blocks fuel dev flash buf slow (b # bs) addr w =
        write_blocks fuel dev flash buf slow bs addr' w'')"
proof -
  have r: "j < unat (b_count b) \<and>
      write_block fuel dev flash buf slow addr (b_size b) w = (Returns (), w') \<longrightarrow>
        write_region fuel dev flash buf slow b j addr w =
          write_region fuel dev flash buf slow b (Suc j) (addr + b_size b) w'"
    by (subst write_region.simps) (simp add: seq_def)
  show ?thesis
    using r by (simp add: write_block_def seq_def)
qed

text \<open>
  An instance: block 0 of the chip with the low programming voltage, in the state after
  the identification. The erase returns false, and the block is what the theorem says:
  the lock, in the state after the programming that follows the erase. Then comes block 1.
\<close>

theorem engine_ignores_erase_and_program_results_witness:
  "erase_block (supported_chips ! 0) = Some intel_erase_block \<and>
   program_block (supported_chips ! 0) = Some intel_program_block \<and>
   fst (intel_erase_block 1 vpp_low 0
          (snd (intel_set_block_lock vpp_low 0 False
                  (snd (flash_identify 1 vpp_low (before_identify vpp_low True (fresh 0)))))))
     = Returns False \<and>
   write_block 1 vpp_low (supported_chips ! 0) blank_image False 0 0x2000
       (snd (flash_identify 1 vpp_low (before_identify vpp_low True (fresh 0)))) =
     intel_set_block_lock vpp_low 0 True
       (snd (intel_program_block 1 vpp_low 0 (bytes_words blank_image) 0x2000 False
          (snd (intel_erase_block 1 vpp_low 0
             (snd (intel_set_block_lock vpp_low 0 False
                (snd (flash_identify 1 vpp_low (before_identify vpp_low True (fresh 0)))))))))) \<and>
   (0 :: nat) < unat (b_count \<lparr>b_count = 8, b_size = 0x2000\<rparr>) \<and>
   write_region 1 vpp_low (supported_chips ! 0) blank_image False \<lparr>b_count = 8, b_size = 0x2000\<rparr> 0 0
       (snd (flash_identify 1 vpp_low (before_identify vpp_low True (fresh 0)))) =
     write_region 1 vpp_low (supported_chips ! 0) blank_image False \<lparr>b_count = 8, b_size = 0x2000\<rparr>
       (Suc 0) 0x2000
       (snd (write_block 1 vpp_low (supported_chips ! 0) blank_image False 0 0x2000
          (snd (flash_identify 1 vpp_low (before_identify vpp_low True (fresh 0))))))"
proof -
  let ?b = "\<lparr>b_count = 8, b_size = 0x2000\<rparr>"
  from flash_identify_vpp_low [of 0]
  obtain w where id: "flash_identify 1 vpp_low (before_identify vpp_low True (fresh 0))
        = (Returns (Some (supported_chips ! 0)), w)"
    and w: "replies_so_far (bus w) = 2"
    by auto
  have chip: "set_block_lock (supported_chips ! 0) = Some intel_set_block_lock"
    "erase_block (supported_chips ! 0) = Some intel_erase_block"
    "program_block (supported_chips ! 0) = Some intel_program_block"
    by (simp_all add: supported_chips_def)
  obtain w1 where l: "intel_set_block_lock vpp_low 0 False w = (Returns (), w1)"
    and w1: "2 \<le> replies_so_far (bus w1)"
    by (simp add: intel_set_block_lock_sent w)
  from intel_erase_block_vpp_low [OF w1, of 0 0]
  obtain w2 where e: "intel_erase_block 1 vpp_low 0 w1 = (Returns False, w2)"
    by auto
  obtain w3 where p: "intel_program_block 1 vpp_low 0 (bytes_words (drop (unat (0 :: u32)) blank_image))
        0x2000 False w2 = (Returns True, w3)"
    using intel_program_block_blank [of 0 "0x2000" 1 vpp_low w2] by simp
  have two: "2 \<le> replies_so_far (bus w)"
    by (simp add: w)
  from write_block_blank [OF two, of 0 "0x2000" 0]
  obtain w' where wb: "write_block 1 vpp_low (supported_chips ! 0) blank_image False 0 0x2000 w
      = (Returns (), w')"
    by auto
  note t = engine_ignores_erase_and_program_results
    [of "supported_chips ! 0" intel_erase_block intel_program_block vpp_low 0 w w1 1 False w2
        blank_image "0x2000" False True w3 0 ?b w' 0 w' "[]"]
  have block: "write_block 1 vpp_low (supported_chips ! 0) blank_image False 0 0x2000 w =
      intel_set_block_lock vpp_low 0 True w3"
    using t chip l e p by simp
  have region: "write_region 1 vpp_low (supported_chips ! 0) blank_image False ?b 0 0 w =
      write_region 1 vpp_low (supported_chips ! 0) blank_image False ?b (Suc 0) 0x2000 w'"
    using t wb by simp
  from chip block region l e p wb show ?thesis
    unfolding id by simp
qed

section \<open>Programming without status checks never reads\<close>

text \<open>
  C10. With \<open>slow\<close> false, \<^verbatim>\<open>intel_program_block\<close> and \<^verbatim>\<open>amd_program_block\<close> return true
  on every device, and all they put on the bus are memory write packets: no read
  request goes out and no reply is taken in, so neither the status register nor the
  written word is read. Hence the result false comes with \<open>slow\<close> true only. The block's
  words must lie inside the image the pointer points into.
\<close>

theorem program_block_fast_succeeds_unread:
  assumes "unat (sz div 2) \<le> length dat"
  shows "fst (intel_program_block fuel dev addr dat sz False w) = Returns True \<and>
         fst (amd_program_block fuel dev addr dat sz False w) = Returns True \<and>
         (\<exists>ps. bus (snd (intel_program_block fuel dev addr dat sz False w)) = bus w @ map Out ps \<and>
               (\<forall>p \<in> set ps. p_cmd p = FW_WRITE_MEM)) \<and>
         (\<exists>ps. bus (snd (amd_program_block fuel dev addr dat sz False w)) = bus w @ map Out ps \<and>
               (\<forall>p \<in> set ps. p_cmd p = FW_WRITE_MEM)) \<and>
         (fst (intel_program_block fuel dev addr dat sz slow w) = Returns False \<longrightarrow> slow) \<and>
         (fst (amd_program_block fuel dev addr dat sz slow w) = Returns False \<longrightarrow> slow)"
proof -
  have cmds: "\<forall>p \<in> set (program_word_packets c base addr dat i). p_cmd p = FW_WRITE_MEM"
    for c base i
    by (simp add: program_word_packets_def flash_write_packet_def write_packet_def)
  have i: "intel_program_block fuel dev addr dat sz False w = (Returns True,
      sends dev ([flash_write_packet (flash_base w + 0) INTEL_CMD_CLEARSTATUS,
                  flash_write_packet (flash_base w + 0) INTEL_CMD_READSTATUS] @
                 concat (map (program_word_packets INTEL_CMD_PROGRAM (flash_base w) addr dat)
                           (words_to_program dat 0 (unat (sz div 2)))) @
                 [flash_write_packet (flash_base w + 0) INTEL_CMD_READ]) w)"
    by (rule intel_program_block_fast [OF assms])
  have a: "amd_program_block fuel dev addr dat sz False w = (Returns True,
      sends dev ([flash_write_packet (flash_base w + 0xaaa) 0xaa,
                  flash_write_packet (flash_base w + 0x554) 0x55,
                  flash_write_packet (flash_base w + 0xaaa) AMD_CMD_UNLOCK_BYPASS] @
                 concat (map (program_word_packets AMD_CMD_PROGRAM (flash_base w) addr dat)
                           (words_to_program dat 0 (unat (sz div 2)))) @
                 [flash_write_packet (flash_base w + 0) AMD_CMD_BYPASS_RESET1,
                  flash_write_packet (flash_base w + 0) AMD_CMD_BYPASS_RESET2]) w)"
    by (rule amd_program_block_fast [OF assms])
  let ?ips = "[flash_write_packet (flash_base w + 0) INTEL_CMD_CLEARSTATUS,
                  flash_write_packet (flash_base w + 0) INTEL_CMD_READSTATUS] @
                 concat (map (program_word_packets INTEL_CMD_PROGRAM (flash_base w) addr dat)
                           (words_to_program dat 0 (unat (sz div 2)))) @
                 [flash_write_packet (flash_base w + 0) INTEL_CMD_READ]"
  let ?aps = "[flash_write_packet (flash_base w + 0xaaa) 0xaa,
                  flash_write_packet (flash_base w + 0x554) 0x55,
                  flash_write_packet (flash_base w + 0xaaa) AMD_CMD_UNLOCK_BYPASS] @
                 concat (map (program_word_packets AMD_CMD_PROGRAM (flash_base w) addr dat)
                           (words_to_program dat 0 (unat (sz div 2)))) @
                 [flash_write_packet (flash_base w + 0) AMD_CMD_BYPASS_RESET1,
                  flash_write_packet (flash_base w + 0) AMD_CMD_BYPASS_RESET2]"
  have "bus (snd (intel_program_block fuel dev addr dat sz False w)) = bus w @ map Out ?ips"
    by (simp add: i)
  moreover have "\<forall>p \<in> set ?ips. p_cmd p = FW_WRITE_MEM"
    using cmds by (auto simp: flash_write_packet_def write_packet_def)
  ultimately have ib: "\<exists>ps. bus (snd (intel_program_block fuel dev addr dat sz False w)) = bus w @ map Out ps \<and>
               (\<forall>p \<in> set ps. p_cmd p = FW_WRITE_MEM)"
    by blast
  have "bus (snd (amd_program_block fuel dev addr dat sz False w)) = bus w @ map Out ?aps"
    by (simp add: a)
  moreover have "\<forall>p \<in> set ?aps. p_cmd p = FW_WRITE_MEM"
    using cmds by (auto simp: flash_write_packet_def write_packet_def)
  ultimately have ab: "\<exists>ps. bus (snd (amd_program_block fuel dev addr dat sz False w)) = bus w @ map Out ps \<and>
               (\<forall>p \<in> set ps. p_cmd p = FW_WRITE_MEM)"
    by blast
  have islow: "fst (intel_program_block fuel dev addr dat sz slow w) = Returns False \<longrightarrow> slow"
    using i by (cases slow) simp_all
  have aslow: "fst (amd_program_block fuel dev addr dat sz slow w) = Returns False \<longrightarrow> slow"
    using a by (cases slow) simp_all
  from i a ib ab islow aslow show ?thesis
    by simp
qed

text \<open>
  An instance: a block of three words, the second one blank, on the device whose every
  transfer times out.
\<close>

theorem program_block_fast_succeeds_unread_witness:
  "unat ((6 :: u32) div 2) \<le> length [0x1234, 0xffff, 0x5678 :: u16] \<and>
   fst (intel_program_block 0 silent 0x2000 [0x1234, 0xffff, 0x5678] 6 False (fresh 0x04000000))
     = Returns True \<and>
   fst (amd_program_block 0 silent 0x2000 [0x1234, 0xffff, 0x5678] 6 False (fresh 0x04000000))
     = Returns True"
  using program_block_fast_succeeds_unread
    [where sz = 6 and dat = "[0x1234, 0xffff, 0x5678]" and fuel = 0 and dev = silent
       and addr = "0x2000" and w = "fresh 0x04000000" and slow = False]
  by simp

section \<open>Transport errors stop at the memory access layer\<close>

text \<open>
  C2, as stated, fails: on the device on which every transfer times out, the memory
  write under \<^verbatim>\<open>cx_flash_write\<close> returns -7 and so does the memory read under
  \<^verbatim>\<open>cx_flash_read\<close>; yet \<^verbatim>\<open>cx_flash_write\<close> and \<^verbatim>\<open>intel_set_block_lock\<close> return nothing,
  \<^verbatim>\<open>cx_flash_read\<close> returns a word to its caller, and \<^verbatim>\<open>intel_program_block\<close> without
  status checks reports success.
\<close>

theorem transport_error_not_propagated:
  "fst (cx_write_mem silent 0x04000000 2 (u16_bytes 0xff) MA_WORD (fresh 0x04000000)) = Returns (- 7) \<and>
   fst (cx_flash_write silent 0 0xff (fresh 0x04000000)) = Returns () \<and>
   fst (cx_read_mem 1 silent 0x04000000 2 (u16_bytes 0) MA_WORD (fresh 0x04000000))
     = Returns (- 7, u16_bytes 0) \<and>
   (\<exists>v. fst (cx_flash_read 1 silent 0 (fresh 0x04000000)) = Returns v) \<and>
   fst (intel_set_block_lock silent 0 True (fresh 0x04000000)) = Returns () \<and>
   fst (intel_program_block 1 silent 0 [0x1234] 2 False (fresh 0x04000000)) = Returns True"
proof -
  have len: "unat ((2 :: u32) div 2) \<le> length [0x1234 :: u16]"
    by simp
  have w: "fst (cx_write_mem silent 0x04000000 2 (u16_bytes 0xff) MA_WORD (fresh 0x04000000)) = Returns (- 7)"
    by (simp add: cx_write_mem_one_packet sizeof_data_def silent_def)
  have r: "fst (cx_read_mem 1 silent 0x04000000 2 (u16_bytes 0) MA_WORD (fresh 0x04000000)) =
      Returns (- 7, u16_bytes 0)"
    using cx_read_mem_request_fails [of 2 silent "fresh 0x04000000" "0x04000000" MA_WORD 0 "u16_bytes 0"]
    by (simp add: silent_def)
  have fr: "\<exists>v. fst (cx_flash_read 1 silent 0 (fresh 0x04000000)) = Returns v"
    using cx_flash_read_request_fails [of silent "fresh 0x04000000" 0 0]
    by (auto simp: silent_def)
  from w r fr show ?thesis
    by (simp add: cx_flash_write_sent intel_set_block_lock_sent intel_program_block_fast [OF len])
qed

text \<open>
  C2, amended. The memory access layer hands a transport error to its caller: when the
  transfer of the first packet of \<^verbatim>\<open>cx_write_mem\<close>, or of the request or the first reply
  of \<^verbatim>\<open>cx_read_mem\<close>, returns a negative value, the call prints it on \<^verbatim>\<open>stderr\<close> and
  returns it at once, with nothing more on the bus. The flash protocol layers have no
  error result for it. On every device, whatever the transfers return,
  \<^verbatim>\<open>cx_flash_write\<close>, \<^verbatim>\<open>cx_flash_cmd\<close>, \<^verbatim>\<open>intel_set_block_lock\<close> and the
  \<^verbatim>\<open>optimized_program_word\<close> of both drivers send all their packets and return
  nothing, and \<^verbatim>\<open>program_block\<close> of both drivers without status checks sends all its
  packets and returns true (\<open>sent\<close> and \<open>sends\<close> put the packets on the bus one after the
  other, with the message of \<^verbatim>\<open>cx_write_mem\<close> for each transfer that fails). And
  \<^verbatim>\<open>cx_flash_read\<close> whose request or first reply fails returns normally: its caller gets
  a word and no error.
\<close>

theorem transport_error_ends_in_memory_layer:
  "(0 < cnt \<and> min 56 (unat cnt) \<le> length buf \<and>
    usb_out dev (bus w) (write_packet addr (take (min 56 (unat cnt)) buf) access_type) < 0 \<longrightarrow>
      cx_write_mem dev addr cnt buf access_type w =
        (Returns (usb_out dev (bus w) (write_packet addr (take (min 56 (unat cnt)) buf) access_type)),
         w\<lparr>bus := bus w @ [Out (write_packet addr (take (min 56 (unat cnt)) buf) access_type)],
           tty := tty w @ [Fprintf_stderr (''Error sending USB request: %d'' @ LF)
             [usb_out dev (bus w) (write_packet addr (take (min 56 (unat cnt)) buf) access_type)]]\<rparr>)) \<and>
   (0 < cnt \<and> usb_out dev (bus w) (read_request addr cnt access_type) < 0 \<longrightarrow>
      cx_read_mem (Suc fuel) dev addr cnt dst access_type w =
        (Returns (usb_out dev (bus w) (read_request addr cnt access_type), dst),
         w\<lparr>bus := bus w @ [Out (read_request addr cnt access_type)],
           tty := tty w @ [Fprintf_stderr (''Error sending USB request: %d'' @ LF)
             [usb_out dev (bus w) (read_request addr cnt access_type)]]\<rparr>)) \<and>
   (0 < cnt \<and> \<not> usb_out dev (bus w) (read_request addr cnt access_type) < 0 \<and>
    usb_in dev (bus w @ [Out (read_request addr cnt access_type)]) = (r, q) \<and> r < 0 \<longrightarrow>
      cx_read_mem (Suc fuel) dev addr cnt dst access_type w =
        (Returns (r, dst),
         w\<lparr>bus := bus w @ [Out (read_request addr cnt access_type), In r q],
           tty := tty w @ [Fprintf_stderr (''Error reading data: %d'' @ LF) [r]]\<rparr>)) \<and>
   cx_flash_write dev a v w = (Returns (), sent dev (flash_write_packet (flash_base w + a) v) w) \<and>
   cx_flash_cmd dev c w =
     (Returns (), sends dev [flash_write_packet (flash_base w + 0xaaa) 0xaa,
                            flash_write_packet (flash_base w + 0x554) 0x55,
                            flash_write_packet (flash_base w + 0xaaa) (ucast c)] w) \<and>
   intel_set_block_lock dev a lock w =
     (Returns (), sends dev [flash_write_packet (flash_base w + a) INTEL_CMD_LOCKMODE,
                            flash_write_packet (flash_base w + a)
                              (if lock then INTEL_CMD_LOCK else INTEL_CMD_UNLOCK)] w) \<and>
   intel_optimized_program_word dev a v w =
     (Returns (), sent dev (write_packet (flash_base w + a - 2)
                              (u16_bytes INTEL_CMD_PROGRAM @ u16_bytes v) MA_WORD) w) \<and>
   amd_optimized_program_word dev a v w =
     (Returns (), sent dev (write_packet (flash_base w + a - 2)
                              (u16_bytes AMD_CMD_PROGRAM @ u16_bytes v) MA_WORD) w) \<and>
   (unat (sz div 2) \<le> length dat \<longrightarrow>
      intel_program_block k dev a dat sz False w =
        (Returns True,
         sends dev ([flash_write_packet (flash_base w + 0) INTEL_CMD_CLEARSTATUS,
                     flash_write_packet (flash_base w + 0) INTEL_CMD_READSTATUS] @
                    concat (map (program_word_packets INTEL_CMD_PROGRAM (flash_base w) a dat)
                              (words_to_program dat 0 (unat (sz div 2)))) @
                    [flash_write_packet (flash_base w + 0) INTEL_CMD_READ]) w)) \<and>
   (unat (sz div 2) \<le> length dat \<longrightarrow>
      amd_program_block k dev a dat sz False w =
        (Returns True,
         sends dev ([flash_write_packet (flash_base w + 0xaaa) 0xaa,
                     flash_write_packet (flash_base w + 0x554) 0x55,
                     flash_write_packet (flash_base w + 0xaaa) AMD_CMD_UNLOCK_BYPASS] @
                    concat (map (program_word_packets AMD_CMD_PROGRAM (flash_base w) a dat)
                              (words_to_program dat 0 (unat (sz div 2)))) @
                    [flash_write_packet (flash_base w + 0) AMD_CMD_BYPASS_RESET1,
                     flash_write_packet (flash_base w + 0) AMD_CMD_BYPASS_RESET2]) w)) \<and>
   (usb_out dev (bus w) (read_request (flash_base w + a) 2 MA_WORD) < 0 \<longrightarrow>
      (\<exists>x. cx_flash_read (Suc fuel) dev a w =
         (Returns x,
          w\<lparr>bus := bus w @ [Out (read_request (flash_base w + a) 2 MA_WORD)],
            tty := tty w @ [Fprintf_stderr (''Error sending USB request: %d'' @ LF)
              [usb_out dev (bus w) (read_request (flash_base w + a) 2 MA_WORD)]]\<rparr>))) \<and>
   (\<not> usb_out dev (bus w) (read_request (flash_base w + a) 2 MA_WORD) < 0 \<and>
    usb_in dev (bus w @ [Out (read_request (flash_base w + a) 2 MA_WORD)]) = (r', q') \<and> r' < 0 \<longrightarrow>
      (\<exists>x. cx_flash_read (Suc fuel) dev a w =
         (Returns x,
          w\<lparr>bus := bus w @ [Out (read_request (flash_base w + a) 2 MA_WORD), In r' q'],
            tty := tty w @ [Fprintf_stderr (''Error reading data: %d'' @ LF) [r']]\<rparr>)))"
proof -
  have wr: "0 < cnt \<and> min 56 (unat cnt) \<le> length buf \<and>
    usb_out dev (bus w) (write_packet addr (take (min 56 (unat cnt)) buf) access_type) < 0 \<longrightarrow>
      cx_write_mem dev addr cnt buf access_type w =
        (Returns (usb_out dev (bus w) (write_packet addr (take (min 56 (unat cnt)) buf) access_type)),
         w\<lparr>bus := bus w @ [Out (write_packet addr (take (min 56 (unat cnt)) buf) access_type)],
           tty := tty w @ [Fprintf_stderr (''Error sending USB request: %d'' @ LF)
             [usb_out dev (bus w) (write_packet addr (take (min 56 (unat cnt)) buf) access_type)]]\<rparr>)"
    using cx_write_mem_first_fails [of cnt buf dev w addr access_type]
    by (simp add: sizeof_data_def)
  have rq: "0 < cnt \<and> usb_out dev (bus w) (read_request addr cnt access_type) < 0 \<longrightarrow>
      cx_read_mem (Suc fuel) dev addr cnt dst access_type w =
        (Returns (usb_out dev (bus w) (read_request addr cnt access_type), dst),
         w\<lparr>bus := bus w @ [Out (read_request addr cnt access_type)],
           tty := tty w @ [Fprintf_stderr (''Error sending USB request: %d'' @ LF)
             [usb_out dev (bus w) (read_request addr cnt access_type)]]\<rparr>)"
    using cx_read_mem_request_fails [of cnt dev w addr access_type fuel dst] by simp
  have rp: "0 < cnt \<and> \<not> usb_out dev (bus w) (read_request addr cnt access_type) < 0 \<and>
    usb_in dev (bus w @ [Out (read_request addr cnt access_type)]) = (r, q) \<and> r < 0 \<longrightarrow>
      cx_read_mem (Suc fuel) dev addr cnt dst access_type w =
        (Returns (r, dst),
         w\<lparr>bus := bus w @ [Out (read_request addr cnt access_type), In r q],
           tty := tty w @ [Fprintf_stderr (''Error reading data: %d'' @ LF) [r]]\<rparr>)"
    using cx_read_mem_reply_fails [of cnt dev w addr access_type r q fuel dst] by simp
  have fq: "usb_out dev (bus w) (read_request (flash_base w + a) 2 MA_WORD) < 0 \<longrightarrow>
      (\<exists>x. cx_flash_read (Suc fuel) dev a w =
         (Returns x,
          w\<lparr>bus := bus w @ [Out (read_request (flash_base w + a) 2 MA_WORD)],
            tty := tty w @ [Fprintf_stderr (''Error sending USB request: %d'' @ LF)
              [usb_out dev (bus w) (read_request (flash_base w + a) 2 MA_WORD)]]\<rparr>))"
    by (blast intro: cx_flash_read_request_fails)
  have fp: "\<not> usb_out dev (bus w) (read_request (flash_base w + a) 2 MA_WORD) < 0 \<and>
    usb_in dev (bus w @ [Out (read_request (flash_base w + a) 2 MA_WORD)]) = (r', q') \<and> r' < 0 \<longrightarrow>
      (\<exists>x. cx_flash_read (Suc fuel) dev a w =
         (Returns x,
          w\<lparr>bus := bus w @ [Out (read_request (flash_base w + a) 2 MA_WORD), In r' q'],
            tty := tty w @ [Fprintf_stderr (''Error reading data: %d'' @ LF) [r']]\<rparr>))"
    by (blast intro: cx_flash_read_reply_fails)
  have ip: "unat (sz div 2) \<le> length dat \<longrightarrow>
      intel_program_block k dev a dat sz False w =
        (Returns True,
         sends dev ([flash_write_packet (flash_base w + 0) INTEL_CMD_CLEARSTATUS,
                     flash_write_packet (flash_base w + 0) INTEL_CMD_READSTATUS] @
                    concat (map (program_word_packets INTEL_CMD_PROGRAM (flash_base w) a dat)
                              (words_to_program dat 0 (unat (sz div 2)))) @
                    [flash_write_packet (flash_base w + 0) INTEL_CMD_READ]) w)"
    by (blast intro: intel_program_block_fast)
  have ap: "unat (sz div 2) \<le> length dat \<longrightarrow>
      amd_program_block k dev a dat sz False w =
        (Returns True,
         sends dev ([flash_write_packet (flash_base w + 0xaaa) 0xaa,
                     flash_write_packet (flash_base w + 0x554) 0x55,
                     flash_write_packet (flash_base w + 0xaaa) AMD_CMD_UNLOCK_BYPASS] @
                    concat (map (program_word_packets AMD_CMD_PROGRAM (flash_base w) a dat)
                              (words_to_program dat 0 (unat (sz div 2)))) @
                    [flash_write_packet (flash_base w + 0) AMD_CMD_BYPASS_RESET1,
                     flash_write_packet (flash_base w + 0) AMD_CMD_BYPASS_RESET2]) w)"
    by (blast intro: amd_program_block_fast)
  note flash = cx_flash_write_sent [of dev a v w] cx_flash_cmd_sent [of dev c w]
    intel_set_block_lock_sent [of dev a lock w] intel_optimized_program_word_sent [of dev a v w]
    amd_optimized_program_word_sent [of dev a v w]
  from wr rq rp flash ip ap fq fp show ?thesis
    by (intro conjI)
qed

text \<open>
  Instances on the CX861xx, with the flash at 0x04000000: the device on which every
  transfer times out, for the failures of a write and of a request, and the device that
  takes every packet and never answers, for the failure of a reply.
\<close>

theorem transport_error_ends_in_memory_layer_witness:
  "(0 :: u32) < 2 \<and> min 56 (unat (2 :: u32)) \<le> length (u16_bytes 0xff) \<and>
   usb_out silent (bus (fresh 0x04000000))
     (write_packet 0x04000000 (take (min 56 (unat (2 :: u32))) (u16_bytes 0xff)) MA_WORD) < 0 \<and>
   usb_out silent (bus (fresh 0x04000000)) (read_request 0x04000000 2 MA_WORD) < 0 \<and>
   \<not> usb_out mute (bus (fresh 0x04000000)) (read_request 0x04000000 2 MA_WORD) < 0 \<and>
   usb_in mute (bus (fresh 0x04000000) @ [Out (read_request 0x04000000 2 MA_WORD)])
     = (- 7, zero_packet) \<and>
   unat ((2 :: u32) div 2) \<le> length [0x1234 :: u16] \<and>
   cx_write_mem silent 0x04000000 2 (u16_bytes 0xff) MA_WORD (fresh 0x04000000) =
     (Returns (- 7),
      (fresh 0x04000000)\<lparr>bus := [Out (write_packet 0x04000000 (u16_bytes 0xff) MA_WORD)],
        tty := [Fprintf_stderr (''Error sending USB request: %d'' @ LF) [- 7]]\<rparr>) \<and>
   cx_read_mem (Suc 0) silent 0x04000000 2 (u16_bytes 0x1111) MA_WORD (fresh 0x04000000) =
     (Returns (- 7, u16_bytes 0x1111),
      (fresh 0x04000000)\<lparr>bus := [Out (read_request 0x04000000 2 MA_WORD)],
        tty := [Fprintf_stderr (''Error sending USB request: %d'' @ LF) [- 7]]\<rparr>) \<and>
   cx_read_mem (Suc 0) mute 0x04000000 2 (u16_bytes 0x1111) MA_WORD (fresh 0x04000000) =
     (Returns (- 7, u16_bytes 0x1111),
      (fresh 0x04000000)\<lparr>bus := [Out (read_request 0x04000000 2 MA_WORD), In (- 7) zero_packet],
        tty := [Fprintf_stderr (''Error reading data: %d'' @ LF) [- 7]]\<rparr>) \<and>
   cx_flash_write silent 0 0xff (fresh 0x04000000) =
     (Returns (),
      (fresh 0x04000000)\<lparr>bus := [Out (flash_write_packet 0x04000000 0xff)],
        tty := [Fprintf_stderr (''Error sending USB request: %d'' @ LF) [- 7]]\<rparr>) \<and>
   fst (intel_set_block_lock silent 0 True (fresh 0x04000000)) = Returns () \<and>
   bus (snd (intel_set_block_lock silent 0 True (fresh 0x04000000))) =
     [Out (flash_write_packet 0x04000000 INTEL_CMD_LOCKMODE),
      Out (flash_write_packet 0x04000000 INTEL_CMD_LOCK)] \<and>
   fst (intel_program_block 1 silent 0 [0x1234] 2 False (fresh 0x04000000)) = Returns True \<and>
   bus (snd (intel_program_block 1 silent 0 [0x1234] 2 False (fresh 0x04000000))) =
     [Out (flash_write_packet 0x04000000 INTEL_CMD_CLEARSTATUS),
      Out (flash_write_packet 0x04000000 INTEL_CMD_READSTATUS),
      Out (flash_write_packet 0x04000000 INTEL_CMD_PROGRAM),
      Out (flash_write_packet 0x04000000 0x1234),
      Out (flash_write_packet 0x04000000 INTEL_CMD_READ)] \<and>
   tty (snd (intel_program_block 1 silent 0 [0x1234] 2 False (fresh 0x04000000))) =
     replicate 5 (Fprintf_stderr (''Error sending USB request: %d'' @ LF) [- 7]) \<and>
   fst (amd_program_block 1 silent 0 [0x1234] 2 False (fresh 0x04000000)) = Returns True \<and>
   bus (snd (amd_program_block 1 silent 0 [0x1234] 2 False (fresh 0x04000000))) =
     [Out (flash_write_packet 0x04000aaa 0xaa),
      Out (flash_write_packet 0x04000554 0x55),
      Out (flash_write_packet 0x04000aaa AMD_CMD_UNLOCK_BYPASS),
      Out (flash_write_packet 0x04000000 AMD_CMD_PROGRAM),
      Out (flash_write_packet 0x04000000 0x1234),
      Out (flash_write_packet 0x04000000 AMD_CMD_BYPASS_RESET1),
      Out (flash_write_packet 0x04000000 AMD_CMD_BYPASS_RESET2)] \<and>
   (\<exists>x. cx_flash_read (Suc 0) silent 0 (fresh 0x04000000) =
      (Returns x,
       (fresh 0x04000000)\<lparr>bus := [Out (read_request 0x04000000 2 MA_WORD)],
         tty := [Fprintf_stderr (''Error sending USB request: %d'' @ LF) [- 7]]\<rparr>)) \<and>
   (\<exists>x. cx_flash_read (Suc 0) mute 0 (fresh 0x04000000) =
      (Returns x,
       (fresh 0x04000000)\<lparr>bus := [Out (read_request 0x04000000 2 MA_WORD), In (- 7) zero_packet],
         tty := [Fprintf_stderr (''Error reading data: %d'' @ LF) [- 7]]\<rparr>))"
proof -
  let ?w = "fresh 0x04000000"
  have h: "(0 :: u32) < 2" "min 56 (unat (2 :: u32)) \<le> length (u16_bytes 0xff)"
    "usb_out silent (bus ?w)
       (write_packet 0x04000000 (take (min 56 (unat (2 :: u32))) (u16_bytes 0xff)) MA_WORD) < 0"
    "usb_out silent (bus ?w) (read_request 0x04000000 2 MA_WORD) < 0"
    "unat ((2 :: u32) div 2) \<le> length [0x1234 :: u16]"
    by (simp_all add: silent_def)
  have g: "\<not> usb_out mute (bus ?w) (read_request 0x04000000 2 MA_WORD) < 0"
    "usb_in mute (bus ?w @ [Out (read_request 0x04000000 2 MA_WORD)]) = (- 7, zero_packet)"
    by (simp_all add: mute_def)
  have fb: "flash_base ?w + 0 = 0x04000000" "bus ?w = []" "tty ?w = []"
    by (simp_all add: fresh_def)
  note s = transport_error_ends_in_memory_layer
    [where cnt = 2 and buf = "u16_bytes 0xff" and dev = silent and w = ?w and addr = "0x04000000"
       and access_type = MA_WORD and fuel = 0 and dst = "u16_bytes 0x1111" and a = 0 and v = "0xff"
       and lock = True and sz = 2 and dat = "[0x1234]" and k = 1 and r = 0 and q = zero_packet
       and c = 0 and r' = 0 and q' = zero_packet, unfolded fb]
  note m = transport_error_ends_in_memory_layer
    [where cnt = 2 and dev = mute and w = ?w and addr = "0x04000000"
       and access_type = MA_WORD and fuel = 0 and dst = "u16_bytes 0x1111" and a = 0
       and r = "- 7" and q = zero_packet and r' = "- 7" and q' = zero_packet and buf = "[]"
       and v = 0 and c = 0 and lock = True and sz = 0 and dat = "[]" and k = 0, unfolded fb]
  have w1: "cx_write_mem silent 0x04000000 2 (u16_bytes 0xff) MA_WORD ?w =
     (Returns (- 7),
      ?w\<lparr>bus := [Out (write_packet 0x04000000 (u16_bytes 0xff) MA_WORD)],
        tty := [Fprintf_stderr (''Error sending USB request: %d'' @ LF) [- 7]]\<rparr>)"
    using s h by (simp add: silent_def fresh_def)
  have r1: "cx_read_mem (Suc 0) silent 0x04000000 2 (u16_bytes 0x1111) MA_WORD ?w =
     (Returns (- 7, u16_bytes 0x1111),
      ?w\<lparr>bus := [Out (read_request 0x04000000 2 MA_WORD)],
        tty := [Fprintf_stderr (''Error sending USB request: %d'' @ LF) [- 7]]\<rparr>)"
    using s h by (simp add: silent_def fresh_def)
  have r2: "cx_read_mem (Suc 0) mute 0x04000000 2 (u16_bytes 0x1111) MA_WORD ?w =
     (Returns (- 7, u16_bytes 0x1111),
      ?w\<lparr>bus := [Out (read_request 0x04000000 2 MA_WORD), In (- 7) zero_packet],
        tty := [Fprintf_stderr (''Error reading data: %d'' @ LF) [- 7]]\<rparr>)"
    using m g by (simp add: fresh_def)
  have fw: "cx_flash_write silent 0 0xff ?w =
     (Returns (),
      ?w\<lparr>bus := [Out (flash_write_packet 0x04000000 0xff)],
        tty := [Fprintf_stderr (''Error sending USB request: %d'' @ LF) [- 7]]\<rparr>)"
    using s by (simp add: sent_def usb_error_def silent_def fresh_def)
  have lk: "intel_set_block_lock silent 0 True ?w =
     (Returns (), sends silent [flash_write_packet 0x04000000 INTEL_CMD_LOCKMODE,
                               flash_write_packet 0x04000000 INTEL_CMD_LOCK] ?w)"
    using s by simp
  have ip: "intel_program_block 1 silent 0 [0x1234] 2 False ?w =
     (Returns True,
      sends silent [flash_write_packet 0x04000000 INTEL_CMD_CLEARSTATUS,
                    flash_write_packet 0x04000000 INTEL_CMD_READSTATUS,
                    flash_write_packet 0x04000000 INTEL_CMD_PROGRAM,
                    flash_write_packet 0x04000000 0x1234,
                    flash_write_packet 0x04000000 INTEL_CMD_READ] ?w)"
    using s h(5) by (simp add: words_to_program_def program_word_packets_def fresh_def)
  have ap: "amd_program_block 1 silent 0 [0x1234] 2 False ?w =
     (Returns True,
      sends silent [flash_write_packet 0x04000aaa 0xaa,
                    flash_write_packet 0x04000554 0x55,
                    flash_write_packet 0x04000aaa AMD_CMD_UNLOCK_BYPASS,
                    flash_write_packet 0x04000000 AMD_CMD_PROGRAM,
                    flash_write_packet 0x04000000 0x1234,
                    flash_write_packet 0x04000000 AMD_CMD_BYPASS_RESET1,
                    flash_write_packet 0x04000000 AMD_CMD_BYPASS_RESET2] ?w)"
    using s h(5) by (simp add: words_to_program_def program_word_packets_def fresh_def)
  have f1: "\<exists>x. cx_flash_read (Suc 0) silent 0 ?w =
      (Returns x,
       ?w\<lparr>bus := [Out (read_request 0x04000000 2 MA_WORD)],
         tty := [Fprintf_stderr (''Error sending USB request: %d'' @ LF) [- 7]]\<rparr>)"
    using s h by (simp add: silent_def fresh_def)
  have f2: "\<exists>x. cx_flash_read (Suc 0) mute 0 ?w =
      (Returns x,
       ?w\<lparr>bus := [Out (read_request 0x04000000 2 MA_WORD), In (- 7) zero_packet],
         tty := [Fprintf_stderr (''Error reading data: %d'' @ LF) [- 7]]\<rparr>)"
    using m g by (simp add: fresh_def)
  have lk': "fst (intel_set_block_lock silent 0 True ?w) = Returns ()"
    "bus (snd (intel_set_block_lock silent 0 True ?w)) =
       [Out (flash_write_packet 0x04000000 INTEL_CMD_LOCKMODE),
        Out (flash_write_packet 0x04000000 INTEL_CMD_LOCK)]"
    unfolding lk by (simp_all add: fresh_def)
  have ip': "fst (intel_program_block 1 silent 0 [0x1234] 2 False ?w) = Returns True"
    "bus (snd (intel_program_block 1 silent 0 [0x1234] 2 False ?w)) =
       [Out (flash_write_packet 0x04000000 INTEL_CMD_CLEARSTATUS),
        Out (flash_write_packet 0x04000000 INTEL_CMD_READSTATUS),
        Out (flash_write_packet 0x04000000 INTEL_CMD_PROGRAM),
        Out (flash_write_packet 0x04000000 0x1234),
        Out (flash_write_packet 0x04000000 INTEL_CMD_READ)]"
    unfolding ip by (simp_all add: fresh_def)
  have ip'': "tty (snd (intel_program_block 1 silent 0 [0x1234] 2 False ?w)) =
      replicate 5 (Fprintf_stderr (''Error sending USB request: %d'' @ LF) [- 7])"
    unfolding ip by (simp add: sent_def usb_error_def silent_def fresh_def eval_nat_numeral)
  have ap': "fst (amd_program_block 1 silent 0 [0x1234] 2 False ?w) = Returns True"
    "bus (snd (amd_program_block 1 silent 0 [0x1234] 2 False ?w)) =
       [Out (flash_write_packet 0x04000aaa 0xaa),
        Out (flash_write_packet 0x04000554 0x55),
        Out (flash_write_packet 0x04000aaa AMD_CMD_UNLOCK_BYPASS),
        Out (flash_write_packet 0x04000000 AMD_CMD_PROGRAM),
        Out (flash_write_packet 0x04000000 0x1234),
        Out (flash_write_packet 0x04000000 AMD_CMD_BYPASS_RESET1),
        Out (flash_write_packet 0x04000000 AMD_CMD_BYPASS_RESET2)]"
    unfolding ap by (simp_all add: fresh_def)
  from h g w1 r1 r2 fw lk' ip' ip'' ap' f1 f2 show ?thesis
    by simp
qed

section \<open>Blank words are skipped\<close>



section \<open>The order and the form of the word writes\<close>



section \<open>Memory transfers go out in chunks\<close>




section \<open>The error mask of the Intel driver\<close>

text \<open>
  C6. The Intel erase on a chip whose status register reads 0xa0, ready (bit 7) with the
  erase error bit (bit 5, \<^verbatim>\<open>INTEL_ST_ERASEERROR\<close>) set: the mask 0x5a does not hold bit 5,
  so \<^verbatim>\<open>intel_erase_block\<close> prints nothing and returns true. On a chip that reads 0xc0,
  ready with an erase suspended (bit 6) and no error bit, it returns false.
\<close>

theorem intel_erase_block_erase_error_passes:
  "(0xa0 :: u16) AND INTEL_ST_READY \<noteq> 0 \<and>
   (0xa0 :: u16) AND INTEL_ST_ERASEERROR \<noteq> 0 \<and>
   fst (intel_erase_block 1 (scripted [0xa0]) 0x10000 (fresh 0x04000000)) = Returns True \<and>
   tty (snd (intel_erase_block 1 (scripted [0xa0]) 0x10000 (fresh 0x04000000))) = [] \<and>
   (0xc0 :: u16) AND (INTEL_ST_ERASEERROR OR INTEL_ST_PROGRAMERROR OR INTEL_ST_VPPERROR
      OR INTEL_ST_LOCKED) = 0 \<and>
   fst (intel_erase_block 1 (scripted [0xc0]) 0x10000 (fresh 0x04000000)) = Returns False"
proof -
  let ?w = "fresh 0x04000000"
  let ?ps = "[flash_write_packet (flash_base ?w + 0) INTEL_CMD_CLEARSTATUS,
              flash_write_packet (flash_base ?w + 0) INTEL_CMD_READSTATUS,
              flash_write_packet (flash_base ?w + 0x10000) INTEL_CMD_ERASE,
              flash_write_packet (flash_base ?w + 0x10000) INTEL_CMD_ERASECONFIRM]"
  obtain wa where ra: "flash_reads 1 (scripted [0xa0]) 0 (Suc 0) (sends (scripted [0xa0]) ?ps ?w)
      = (Returns ([] @ [0xa0]), wa)" and ta: "tty wa = []"
    by (simp add: cx_flash_read_scripted seq_def ret_def fresh_def)
  obtain wc where rc: "flash_reads 1 (scripted [0xc0]) 0 (Suc 0) (sends (scripted [0xc0]) ?ps ?w)
      = (Returns ([] @ [0xc0]), wc)"
    by (simp add: cx_flash_read_scripted seq_def ret_def fresh_def)
  have a: "intel_erase_block 1 (scripted [0xa0]) 0x10000 ?w =
      (Returns True, sent (scripted [0xa0]) (flash_write_packet (flash_base ?w + 0) INTEL_CMD_READ) wa)"
    using intel_erase_block_reads [OF ra] by simp
  have c: "fst (intel_erase_block 1 (scripted [0xc0]) 0x10000 ?w) = Returns False"
    using intel_erase_block_reads [OF rc] by simp
  from a c ta show ?thesis
    by simp
qed

section \<open>Identification, and the exit on an unknown chip\<close>

text \<open>
  C8. Let \<^verbatim>\<open>flash_identify\<close> read the manufacturer ID \<open>m\<close> at offset 0 and the device ID
  \<open>d\<close> at offset 2. If they are 0x0089 and 0x88c5, it returns the descriptor of the Intel
  28F320C3B: 4 MiB, eight blocks of 8192 bytes and 63 blocks of 65536 bytes. If the pair
  is not in the catalogue, it returns null. And when \<^verbatim>\<open>flash_identify\<close> returns null,
  \<^verbatim>\<open>main\<close> prints its message and exits with code 6 in the state \<^verbatim>\<open>flash_identify\<close> has
  left: the bus history is the one at the end of \<^verbatim>\<open>flash_identify\<close>, so no read, erase,
  program or lock operation follows.
\<close>

theorem identify_selects_intel_or_main_exits:
  assumes "cx_flash_read fuel dev 0
             (sends dev [flash_write_packet (flash_base w + 0xaaa) 0xaa,
                         flash_write_packet (flash_base w + 0x554) 0x55,
                         flash_write_packet (flash_base w + 0xaaa) FLASH_CMD_ID] w) = (Returns m, w1)"
    and "cx_flash_read fuel dev 2 w1 = (Returns d, w2)"
  shows "(m = 0x0089 \<and> d = 0x88c5 \<longrightarrow>
            (\<exists>c. flash_identify fuel dev w =
                   (Returns (Some c),
                    sends dev [flash_write_packet (flash_base w + 0) INTEL_CMD_READ,
                               flash_write_packet (flash_base w + 0) AMD_CMD_RESET] w2) \<and>
                 c_name c = ''Intel 28F320C3B'' \<and> c_size c = 4 * 1024 * 1024 \<and>
                 blocks_of c = [\<lparr>b_count = 8, b_size = 8192\<rparr>, \<lparr>b_count = 63, b_size = 65536\<rparr>])) \<and>
         ((m, d) \<notin> set (map (\<lambda>c. (c_mfg c, c_dev c)) catalog) \<longrightarrow>
            flash_identify fuel dev w =
              (Returns None,
               sends dev [flash_write_packet (flash_base w + 0) INTEL_CMD_READ,
                          flash_write_packet (flash_base w + 0) AMD_CMD_RESET] w2)) \<and>
         (3 \<le> length argv \<and>
          flash_identify fuel dev (before_identify dev cx861xx w0) = (Returns None, w') \<longrightarrow>
            main fuel dev host cx861xx argv w0 =
              (Exits 6, w'\<lparr>tty := tty w' @ [Printf (''Unsupported flash type'' @ LF)]\<rparr>))"
proof -
  note id = flash_identify_reads [OF assms]
  have intel: "c_name (supported_chips ! 0) = ''Intel 28F320C3B'' \<and>
      c_size (supported_chips ! 0) = 4 * 1024 * 1024 \<and>
      blocks_of (supported_chips ! 0) =
        [\<lparr>b_count = 8, b_size = 8192\<rparr>, \<lparr>b_count = 63, b_size = 65536\<rparr>]"
    by (simp add: supported_chips_def blocks_of_def block_array_def)
  have a: "m = 0x0089 \<and> d = 0x88c5 \<longrightarrow>
            (\<exists>c. flash_identify fuel dev w =
                   (Returns (Some c),
                    sends dev [flash_write_packet (flash_base w + 0) INTEL_CMD_READ,
                               flash_write_packet (flash_base w + 0) AMD_CMD_RESET] w2) \<and>
                 c_name c = ''Intel 28F320C3B'' \<and> c_size c = 4 * 1024 * 1024 \<and>
                 blocks_of c = [\<lparr>b_count = 8, b_size = 8192\<rparr>, \<lparr>b_count = 63, b_size = 65536\<rparr>])"
    using id intel by (auto simp: find_chip_intel)
  have b: "(m, d) \<notin> set (map (\<lambda>c. (c_mfg c, c_dev c)) catalog) \<longrightarrow>
            flash_identify fuel dev w =
              (Returns None,
               sends dev [flash_write_packet (flash_base w + 0) INTEL_CMD_READ,
                          flash_write_packet (flash_base w + 0) AMD_CMD_RESET] w2)"
    using id by (simp add: find_chip_unknown)
  have c: "3 \<le> length argv \<and>
          flash_identify fuel dev (before_identify dev cx861xx w0) = (Returns None, w') \<longrightarrow>
            main fuel dev host cx861xx argv w0 =
              (Exits 6, w'\<lparr>tty := tty w' @ [Printf (''Unsupported flash type'' @ LF)]\<rparr>)"
    by (blast intro: main_unknown_chip)
  from a b c show ?thesis
    by blast
qed

text \<open>
  Two instances on the CX861xx: a chip that answers the two reads with 0x0089 and 0x88c5,
  and one that answers 0xffff to both, for which \<^verbatim>\<open>main\<close> exits with code 6 and the last
  packet on the bus is the reset command that ends \<^verbatim>\<open>flash_identify\<close>.
\<close>

theorem identify_selects_intel_or_main_exits_witness:
  "(\<exists>c. fst (flash_identify 1 (scripted [0x0089, 0x88c5]) (fresh 0x04000000)) = Returns (Some c) \<and>
        c_name c = ''Intel 28F320C3B'' \<and> c_size c = 4 * 1024 * 1024 \<and>
        blocks_of c = [\<lparr>b_count = 8, b_size = 8192\<rparr>, \<lparr>b_count = 63, b_size = 65536\<rparr>]) \<and>
   (0xffff, 0xffff) \<notin> set (map (\<lambda>c. (c_mfg c, c_dev c)) catalog) \<and>
   3 \<le> length [''cx861xx_flash'', ''write'', ''image.bin''] \<and>
   fst (main 1 (scripted [0xffff]) bare_host True [''cx861xx_flash'', ''write'', ''image.bin''] (fresh 0))
     = Exits 6 \<and>
   writes (bus (snd (main 1 (scripted [0xffff]) bare_host True
                       [''cx861xx_flash'', ''write'', ''image.bin''] (fresh 0)))) =
     [write_packet CX861XX_FLASH_ENABLE [1] MA_BYTE,
      flash_write_packet 0x04000000 INTEL_CMD_READ,
      flash_write_packet 0x04000000 AMD_CMD_RESET,
      flash_write_packet 0x04000aaa 0xaa,
      flash_write_packet 0x04000554 0x55,
      flash_write_packet 0x04000aaa FLASH_CMD_ID,
      flash_write_packet 0x04000000 INTEL_CMD_READ,
      flash_write_packet 0x04000000 AMD_CMD_RESET] \<and>
   last (bus (snd (main 1 (scripted [0xffff]) bare_host True
                     [''cx861xx_flash'', ''write'', ''image.bin''] (fresh 0)))) =
     Out (flash_write_packet 0x04000000 AMD_CMD_RESET)"
proof -
  let ?argv = "[''cx861xx_flash'', ''write'', ''image.bin'']"
  let ?d = "scripted [0x0089, 0x88c5]"
  let ?w = "fresh 0x04000000"
  let ?ids = "[flash_write_packet (flash_base ?w + 0xaaa) 0xaa,
               flash_write_packet (flash_base ?w + 0x554) 0x55,
               flash_write_packet (flash_base ?w + 0xaaa) FLASH_CMD_ID]"
  obtain w1 where r1: "cx_flash_read 1 ?d 0 (sends ?d ?ids ?w) = (Returns 0x0089, w1)"
    and b1: "replies_so_far (bus w1) = 1"
    by (simp add: cx_flash_read_scripted fresh_def)
  obtain w2 where r2: "cx_flash_read 1 ?d 2 w1 = (Returns 0x88c5, w2)"
    by (simp add: cx_flash_read_scripted b1)
  from identify_selects_intel_or_main_exits
    [OF r1 r2, of ?argv True "fresh 0" "fresh 0" bare_host]
  obtain c where c: "flash_identify 1 ?d ?w =
        (Returns (Some c),
         sends ?d [flash_write_packet (flash_base ?w + 0) INTEL_CMD_READ,
                   flash_write_packet (flash_base ?w + 0) AMD_CMD_RESET] w2)"
    and cc: "c_name c = ''Intel 28F320C3B''" "c_size c = 4 * 1024 * 1024"
      "blocks_of c = [\<lparr>b_count = 8, b_size = 8192\<rparr>, \<lparr>b_count = 63, b_size = 65536\<rparr>]"
    by blast
  have intel: "\<exists>c. fst (flash_identify 1 ?d ?w) = Returns (Some c) \<and>
        c_name c = ''Intel 28F320C3B'' \<and> c_size c = 4 * 1024 * 1024 \<and>
        blocks_of c = [\<lparr>b_count = 8, b_size = 8192\<rparr>, \<lparr>b_count = 63, b_size = 65536\<rparr>]"
    using cc c by (intro exI [of _ c]) simp
  let ?e = "scripted [0xffff]"
  let ?v = "before_identify ?e True (fresh 0)"
  let ?ide = "[flash_write_packet (flash_base ?v + 0xaaa) 0xaa,
               flash_write_packet (flash_base ?v + 0x554) 0x55,
               flash_write_packet (flash_base ?v + 0xaaa) FLASH_CMD_ID]"
  have unknown: "(0xffff, 0xffff) \<notin> set (map (\<lambda>c. (c_mfg c, c_dev c)) catalog)"
    by (simp add: catalog_eq supported_chips_def)
  have argv: "3 \<le> length ?argv"
    by simp
  obtain v1 where s1: "cx_flash_read 1 ?e 0 (sends ?e ?ide ?v) = (Returns 0xffff, v1)"
    and v1: "writes (bus v1) =
      [write_packet CX861XX_FLASH_ENABLE [1] MA_BYTE,
       flash_write_packet 0x04000000 INTEL_CMD_READ,
       flash_write_packet 0x04000000 AMD_CMD_RESET,
       flash_write_packet 0x04000aaa 0xaa,
       flash_write_packet 0x04000554 0x55,
       flash_write_packet 0x04000aaa FLASH_CMD_ID]" "flash_base v1 = 0x04000000"
    by (simp add: cx_flash_read_scripted before_identify_def fresh_def read_request_def)
  obtain v2 where s2: "cx_flash_read 1 ?e 2 v1 = (Returns 0xffff, v2)"
    and v2: "writes (bus v2) = writes (bus v1)" "flash_base v2 = flash_base v1"
    by (simp add: cx_flash_read_scripted read_request_def)
  let ?v3 = "sends ?e [flash_write_packet (flash_base ?v + 0) INTEL_CMD_READ,
                       flash_write_packet (flash_base ?v + 0) AMD_CMD_RESET] v2"
  from identify_selects_intel_or_main_exits
    [OF s1 s2, of ?argv True "fresh 0" "fresh 0" bare_host] unknown
  have none: "flash_identify 1 ?e ?v = (Returns None, ?v3)"
    by blast
  from identify_selects_intel_or_main_exits [OF s1 s2,
      of ?argv True "fresh 0" ?v3 bare_host] argv none
  have m: "main 1 ?e bare_host True ?argv (fresh 0) =
      (Exits 6, ?v3\<lparr>tty := tty ?v3 @ [Printf (''Unsupported flash type'' @ LF)]\<rparr>)"
    by blast
  have fb: "flash_base ?v = 0x04000000"
    by (simp add: before_identify_def)
  from intel unknown argv m v1 v2 fb show ?thesis
    by simp
qed

section \<open>Data polling in the AMD erase\<close>

text \<open>
  C9. \<^verbatim>\<open>amd_erase_block\<close> sends its six command writes and then reads the block address
  back. Take the first \<open>k + 1\<close> of these reads, the first \<open>k\<close> of which show bit 7 and
  bit 5 clear, so that the loop goes on. If the last one shows bit 7 clear and bit 5 set,
  the call prints the timeout message, writes the reset command and returns false: the
  bus history ends with the reset write, no read follows. If the last one shows bit 7
  set, the call returns true at once, with nothing after that read.
\<close>

theorem amd_erase_block_data_polling:
  assumes "flash_reads fuel dev addr (Suc k)
             (sends dev [flash_write_packet (flash_base w + 0xaaa) 0xaa,
                         flash_write_packet (flash_base w + 0x554) 0x55,
                         flash_write_packet (flash_base w + 0xaaa) AMD_CMD_ERASE_PREPARE,
                         flash_write_packet (flash_base w + 0xaaa) 0xaa,
                         flash_write_packet (flash_base w + 0x554) 0x55,
                         flash_write_packet (flash_base w + addr) AMD_CMD_ERASE_SECTOR] w)
           = (Returns (ss @ [s]), w')"
    and "\<forall>x \<in> set ss. x AND AMD_ST_DATAPOLL = 0 \<and> x AND AMD_ST_TIMEOUT = 0"
    and "k < fuel"
  shows "(s AND AMD_ST_DATAPOLL = 0 \<and> s AND AMD_ST_TIMEOUT \<noteq> 0 \<longrightarrow>
            amd_erase_block fuel dev addr w =
              (Returns False,
               sent dev (flash_write_packet (flash_base w + 0) AMD_CMD_RESET)
                 (w'\<lparr>tty := tty w' @ [Printf (''Error: TIMEOUT!'' @ LF)]\<rparr>))) \<and>
         (s AND AMD_ST_DATAPOLL \<noteq> 0 \<longrightarrow> amd_erase_block fuel dev addr w = (Returns True, w'))"
  using amd_erase_poll_reads [OF assms]
  by (simp add: amd_erase_block_def seq_def cx_flash_cmd_sent cx_flash_write_sent)

text \<open>
  An instance: the erase of the block at 0x10000 on a chip that is read as 0, 0 and then
  0x20 (bit 5 alone). The call returns false, after three reads, and the reset write is
  the last thing on the bus.
\<close>

theorem amd_erase_block_data_polling_witness:
  "(0 :: u16) AND AMD_ST_DATAPOLL = 0 \<and> (0 :: u16) AND AMD_ST_TIMEOUT = 0 \<and>
   (0x20 :: u16) AND AMD_ST_DATAPOLL = 0 \<and> (0x20 :: u16) AND AMD_ST_TIMEOUT \<noteq> 0 \<and>
   fst (amd_erase_block 3 (scripted [0, 0, 0x20]) 0x10000 (fresh 0x400000)) = Returns False \<and>
   replies_so_far (bus (snd (amd_erase_block 3 (scripted [0, 0, 0x20]) 0x10000 (fresh 0x400000)))) = 3 \<and>
   last (bus (snd (amd_erase_block 3 (scripted [0, 0, 0x20]) 0x10000 (fresh 0x400000))))
     = Out (flash_write_packet 0x400000 AMD_CMD_RESET)"
proof -
  let ?w = "fresh 0x400000"
  let ?d = "scripted [0, 0, 0x20]"
  let ?w4 = "sends ?d [flash_write_packet (flash_base ?w + 0xaaa) 0xaa,
                         flash_write_packet (flash_base ?w + 0x554) 0x55,
                         flash_write_packet (flash_base ?w + 0xaaa) AMD_CMD_ERASE_PREPARE,
                         flash_write_packet (flash_base ?w + 0xaaa) 0xaa,
                         flash_write_packet (flash_base ?w + 0x554) 0x55,
                         flash_write_packet (flash_base ?w + 0x10000) AMD_CMD_ERASE_SECTOR] ?w"
  obtain w' where reads: "flash_reads 3 ?d 0x10000 (Suc 2) ?w4 = (Returns ([0, 0] @ [0x20]), w')"
    by (simp add: eval_nat_numeral cx_flash_read_scripted seq_def ret_def fresh_def)
  have go: "\<forall>x \<in> set [0, 0 :: u16]. x AND AMD_ST_DATAPOLL = 0 \<and> x AND AMD_ST_TIMEOUT = 0"
    by simp
  have n: "(2 :: nat) < 3"
    by simp
  have w': "replies_so_far (bus w') = 3"
    using reads by (auto simp: eval_nat_numeral cx_flash_read_scripted seq_def ret_def fresh_def)
  from amd_erase_block_data_polling [OF reads go n] w' go show ?thesis
    by (simp add: fresh_def)
qed

end
